theory Spec2Isabelle
  imports Complex_Main "HOL-Library.Char_ord"
begin

section \<open>JavaScript values as the handlers of server.js see them\<close>

text \<open>
  The request body is what \<^verbatim>\<open>express.json()\<close> hands to a handler: a parsed JSON
  object, each key once. A field that is absent reads as \<^verbatim>\<open>undefined\<close>, modelled by
  \<open>None\<close>; a JSON value is never \<^verbatim>\<open>undefined\<close> itself.

  A number is an IEEE double. A finite double is modelled by the rational it denotes, so
  the model has every double and more; a numeric string is rounded to the nearest double
  as \<^verbatim>\<open>Number\<close> does. Negative zero is identified with zero (\<^verbatim>\<open>-0 < 0\<close> is false
  in JavaScript as well).

  A string is modelled by its UTF-8 bytes, the encoding of the request body. Both
  regular expressions of server.js only have ASCII classes, so a string matches them
  exactly when its bytes do.
\<close>

datatype jsnum = NaN | PosInf | NegInf | Fin rat

datatype json =
    JNull
  | JBool bool
  | JNum jsnum
  | JStr string
  | JArr "json list"
  | JObj "(string \<times> json) list"

type_synonym jsval = "json option"

text \<open>Truthiness, as \<^verbatim>\<open>!v\<close> and \<^verbatim>\<open>v || ''\<close> decide it.\<close>

fun truthy :: "jsval \<Rightarrow> bool" where
  "truthy None = False"
| "truthy (Some JNull) = False"
| "truthy (Some (JBool b)) = b"
| "truthy (Some (JNum NaN)) = False"
| "truthy (Some (JNum (Fin q))) = (q \<noteq> 0)"
| "truthy (Some (JNum _)) = True"
| "truthy (Some (JStr s)) = (s \<noteq> [])"
| "truthy (Some (JArr _)) = True"
| "truthy (Some (JObj _)) = True"

text \<open>\<^verbatim>\<open>v || ''\<close>\<close>

definition or_empty :: "jsval \<Rightarrow> json" where
  "or_empty v = (case v of Some j \<Rightarrow> (if truthy v then j else JStr []) | None \<Rightarrow> JStr [])"

definition isFinite :: "jsnum \<Rightarrow> bool" where
  "isFinite n = (case n of Fin _ \<Rightarrow> True | _ \<Rightarrow> False)"

text \<open>\<^verbatim>\<open>n < 0\<close> on a number.\<close>

definition negative :: "jsnum \<Rightarrow> bool" where
  "negative n = (case n of Fin q \<Rightarrow> q < 0 | NegInf \<Rightarrow> True | _ \<Rightarrow> False)"

subsection \<open>White space and \<^verbatim>\<open>String.prototype.trim\<close>\<close>

text \<open>
  The white space and line terminators of ECMAScript, in UTF-8: the ASCII ones
  (U+0009 to U+000D, U+0020), U+00A0, and the three-byte ones U+1680, U+2000 to U+200A,
  U+2028, U+2029, U+202F, U+205F, U+3000 and U+FEFF.
\<close>

definition ws1 :: "char \<Rightarrow> bool" where
  "ws1 c = (c \<in> set [CHR 0x09, CHR 0x0A, CHR 0x0B, CHR 0x0C, CHR 0x0D, CHR 0x20])"

definition ws2 :: "char \<Rightarrow> char \<Rightarrow> bool" where
  "ws2 a b = (a = CHR 0xC2 \<and> b = CHR 0xA0)"

definition ws3 :: "char \<Rightarrow> char \<Rightarrow> char \<Rightarrow> bool" where
  "ws3 a b c =
     ((a = CHR 0xE1 \<and> b = CHR 0x9A \<and> c = CHR 0x80)
    \<or> (a = CHR 0xE2 \<and> b = CHR 0x80 \<and>
         ((CHR 0x80 \<le> c \<and> c \<le> CHR 0x8A) \<or> c \<in> set [CHR 0xA8, CHR 0xA9, CHR 0xAF]))
    \<or> (a = CHR 0xE2 \<and> b = CHR 0x81 \<and> c = CHR 0x9F)
    \<or> (a = CHR 0xE3 \<and> b = CHR 0x80 \<and> c = CHR 0x80)
    \<or> (a = CHR 0xEF \<and> b = CHR 0xBB \<and> c = CHR 0xBF))"

text \<open>
  Dropping white space from the front of a byte list. With \<open>back = True\<close> the list is a
  reversed string, so a multi-byte character arrives last byte first.
\<close>

fun strip :: "bool \<Rightarrow> string \<Rightarrow> string" where
  "strip back (a # b # c # r) =
     (if ws1 a then strip back (b # c # r)
      else if (if back then ws2 b a else ws2 a b) then strip back (c # r)
      else if (if back then ws3 c b a else ws3 a b c) then strip back r
      else a # b # c # r)"
| "strip back [a, b] =
     (if ws1 a then strip back [b]
      else if (if back then ws2 b a else ws2 a b) then []
      else [a, b])"
| "strip back [a] = (if ws1 a then [] else [a])"
| "strip back [] = []"

definition trim :: "string \<Rightarrow> string" where
  "trim s = rev (strip True (rev (strip False s)))"

subsection \<open>\<^verbatim>\<open>Number(string)\<close>: the StringNumericLiteral grammar\<close>

definition is_digit :: "char \<Rightarrow> bool" where
  "is_digit c = (CHR ''0'' \<le> c \<and> c \<le> CHR ''9'')"

text \<open>The value of a digit in a base up to 16, if it is one.\<close>

definition digit_val :: "nat \<Rightarrow> char \<Rightarrow> nat option" where
  "digit_val base c =
     (let v = (if CHR ''0'' \<le> c \<and> c \<le> CHR ''9'' then of_char c - 48
               else if CHR ''a'' \<le> c \<and> c \<le> CHR ''f'' then of_char c - 87
               else if CHR ''A'' \<le> c \<and> c \<le> CHR ''F'' then of_char c - 55
               else 16)
      in if v < base then Some v else None)"

fun digits_val :: "nat \<Rightarrow> nat \<Rightarrow> string \<Rightarrow> nat option" where
  "digits_val base acc [] = Some acc"
| "digits_val base acc (c # cs) =
     (case digit_val base c of
        None \<Rightarrow> None
      | Some v \<Rightarrow> digits_val base (base * acc + v) cs)"

text \<open>One or more digits of the base, and nothing else.\<close>

definition number_in :: "nat \<Rightarrow> string \<Rightarrow> nat option" where
  "number_in base ds = (if ds = [] then None else digits_val base 0 ds)"

text \<open>
  Rounding to the nearest double, ties to the even significand. A double has 53
  significant bits above \<open>2 ^ -1022\<close> and steps of \<open>2 ^ -1074\<close> below it. A value at or
  beyond \<open>2 ^ 1024 - 2 ^ 970\<close>, half-way between the largest double and \<open>2 ^ 1024\<close>,
  rounds to an infinity.
\<close>

definition round_half_even :: "rat \<Rightarrow> int" where
  "round_half_even x =
     (let f = \<lfloor>x\<rfloor>; d = x - of_int f
      in if d < 1 / 2 then f
         else if 1 / 2 < d then f + 1
         else if even f then f else f + 1)"

text \<open>The \<open>e\<close> with \<open>2 ^ e \<le> a < 2 ^ (e + 1)\<close>, searched from 0 in at most \<open>n\<close> steps.\<close>

fun binary_exponent :: "nat \<Rightarrow> rat \<Rightarrow> int" where
  "binary_exponent n a =
     (if n = 0 then 0
      else if 2 \<le> a then binary_exponent (n - 1) (a / 2) + 1
      else if a < 1 then binary_exponent (n - 1) (a * 2) - 1
      else 0)"

definition pow2 :: "int \<Rightarrow> rat" where
  "pow2 k = (if 0 \<le> k then 2 ^ nat k else 1 / 2 ^ nat (- k))"

definition to_double :: "rat \<Rightarrow> jsnum" where
  "to_double q =
     (let a = \<bar>q\<bar>
      in if 2 ^ 1024 - 2 ^ 970 \<le> a then (if q < 0 then NegInf else PosInf)
         else
           (let e = (if a < 1 / 2 ^ 1022 then - 1022 else binary_exponent 1100 a);
                ulp = pow2 (e - 52);
                r = of_int (round_half_even (a / ulp)) * ulp
            in Fin (if q < 0 then - r else r)))"

text \<open>The exponent part: absent, or \<^verbatim>\<open>e\<close> or \<^verbatim>\<open>E\<close>, an optional sign and digits.\<close>

definition exponent_part :: "string \<Rightarrow> int option" where
  "exponent_part r =
     (case r of
        [] \<Rightarrow> Some 0
      | c # ds \<Rightarrow>
          if c = CHR ''e'' \<or> c = CHR ''E'' then
            (case ds of
               CHR ''-'' # es \<Rightarrow> map_option (\<lambda>n. - int n) (number_in 10 es)
             | CHR ''+'' # es \<Rightarrow> map_option int (number_in 10 es)
             | _ \<Rightarrow> map_option int (number_in 10 ds))
          else None)"

definition scale10 :: "rat \<Rightarrow> int \<Rightarrow> rat" where
  "scale10 q e = (if 0 \<le> e then q * 10 ^ nat e else q / 10 ^ nat (- e))"

text \<open>StrUnsignedDecimalLiteral, after the sign.\<close>

definition unsigned_decimal :: "string \<Rightarrow> rat option" where
  "unsigned_decimal u =
     (let ip = takeWhile is_digit u;
          r1 = dropWhile is_digit u;
          fp = (case r1 of c # r \<Rightarrow> if c = CHR ''.'' then takeWhile is_digit r else [] | [] \<Rightarrow> []);
          r2 = (case r1 of c # r \<Rightarrow> if c = CHR ''.'' then dropWhile is_digit r else r1 | [] \<Rightarrow> [])
      in if ip = [] \<and> fp = [] then None
         else
           (case (digits_val 10 0 ip, digits_val 10 0 fp, exponent_part r2) of
              (Some i, Some f, Some e) \<Rightarrow>
                Some (scale10 (of_nat i + of_nat f / 10 ^ length fp) e)
            | _ \<Rightarrow> None))"

definition decimal_literal :: "string \<Rightarrow> jsnum" where
  "decimal_literal t =
     (let neg = (case t of c # _ \<Rightarrow> c = CHR ''-'' | [] \<Rightarrow> False);
          u = (case t of c # r \<Rightarrow> if c = CHR ''-'' \<or> c = CHR ''+'' then r else t | [] \<Rightarrow> t)
      in if u = ''Infinity'' then (if neg then NegInf else PosInf)
         else
           (case unsigned_decimal u of
              None \<Rightarrow> NaN
            | Some q \<Rightarrow> to_double (if neg then - q else q)))"

text \<open>NonDecimalIntegerLiteral: \<^verbatim>\<open>0x\<close>, \<^verbatim>\<open>0o\<close> or \<^verbatim>\<open>0b\<close> and digits, no sign.\<close>

definition non_decimal :: "string \<Rightarrow> nat option" where
  "non_decimal t =
     (case t of
        z # x # ds \<Rightarrow>
          if z \<noteq> CHR ''0'' then None
          else if x = CHR ''x'' \<or> x = CHR ''X'' then number_in 16 ds
          else if x = CHR ''o'' \<or> x = CHR ''O'' then number_in 8 ds
          else if x = CHR ''b'' \<or> x = CHR ''B'' then number_in 2 ds
          else None
      | _ \<Rightarrow> None)"

definition string_to_number :: "string \<Rightarrow> jsnum" where
  "string_to_number s =
     (let t = trim s
      in if t = [] then Fin 0
         else
           (case non_decimal t of
              Some n \<Rightarrow> to_double (of_nat n)
            | None \<Rightarrow> decimal_literal t))"

subsection \<open>\<^verbatim>\<open>String(number)\<close>\<close>

text \<open>
  ECMAScript prints the shortest digit string that reads back as the same double. The
  model prints the digits of the exact value (at most 1100 after the point, more than any
  double has) in the notation ECMAScript chooses: plain below \<open>10 ^ 21\<close> and from
  \<open>10 ^ -6\<close>, exponent notation otherwise. On an integer below \<open>10 ^ 21\<close> the two agree,
  and in every case they agree on what the handlers can see: the number the string reads
  back as, and whether it matches a pattern of server.js.
\<close>

definition digit_char :: "nat \<Rightarrow> char" where
  "digit_char d = ''0123456789'' ! d"

fun digits_of :: "nat \<Rightarrow> string" where
  "digits_of n = (if n < 10 then [digit_char n] else digits_of (n div 10) @ [digit_char (n mod 10)])"

fun frac_digits :: "nat \<Rightarrow> rat \<Rightarrow> string" where
  "frac_digits n r =
     (if r = 0 \<or> n = 0 then []
      else digit_char (nat \<lfloor>r * 10\<rfloor>) # frac_digits (n - 1) (r * 10 - of_int \<lfloor>r * 10\<rfloor>))"

definition strip_zeros_end :: "string \<Rightarrow> string" where
  "strip_zeros_end ds = rev (dropWhile (\<lambda>c. c = CHR ''0'') (rev ds))"

definition mantissa :: "string \<Rightarrow> string" where
  "mantissa ds =
     (case ds of
        [] \<Rightarrow> ''0''
      | d # r \<Rightarrow> if r = [] then [d] else d # CHR ''.'' # r)"

definition positive_to_string :: "rat \<Rightarrow> string" where
  "positive_to_string q =
     (let ip = digits_of (nat \<lfloor>q\<rfloor>);
          fp = frac_digits 1100 (q - of_int \<lfloor>q\<rfloor>)
      in if 10 ^ 21 \<le> q then
           mantissa (strip_zeros_end (ip @ fp)) @ ''e+'' @ digits_of (length ip - 1)
         else if 1 \<le> q then
           (if fp = [] then ip else ip @ CHR ''.'' # fp)
         else if 1 / 10 ^ 6 \<le> q then
           ''0.'' @ fp
         else
           mantissa (dropWhile (\<lambda>c. c = CHR ''0'') fp) @ ''e-''
             @ digits_of (Suc (length (takeWhile (\<lambda>c. c = CHR ''0'') fp))))"

definition number_to_string :: "jsnum \<Rightarrow> string" where
  "number_to_string n =
     (case n of
        NaN \<Rightarrow> ''NaN''
      | PosInf \<Rightarrow> ''Infinity''
      | NegInf \<Rightarrow> ''-Infinity''
      | Fin q \<Rightarrow>
          if q = 0 then ''0''
          else if q < 0 then CHR ''-'' # positive_to_string (- q)
          else positive_to_string q)"

subsection \<open>\<^verbatim>\<open>ToString\<close> and \<^verbatim>\<open>Number\<close> on any JSON value\<close>

text \<open>
  A parsed JSON object has no callable property of its own. Converting it to a primitive
  calls \<^verbatim>\<open>Object.prototype.toString\<close>, which gives \<^verbatim>\<open>[object Object]\<close>, unless the
  object has a key \<^verbatim>\<open>toString\<close> of its own: that value is not callable,
  \<^verbatim>\<open>valueOf\<close> gives back the object, and the conversion throws a TypeError (\<open>None\<close>).
  An array is joined with commas, \<^verbatim>\<open>null\<close> elements printing as the empty string.
\<close>

fun to_string :: "json \<Rightarrow> string option"
  and join :: "json list \<Rightarrow> string option" where
  "to_string JNull = Some ''null''"
| "to_string (JBool b) = Some (if b then ''true'' else ''false'')"
| "to_string (JNum n) = Some (number_to_string n)"
| "to_string (JStr s) = Some s"
| "to_string (JArr xs) = join xs"
| "to_string (JObj kvs) =
     (if map_of kvs ''toString'' = None then Some ''[object Object]'' else None)"
| "join [] = Some []"
| "join (x # xs) =
     (case (if x = JNull then Some [] else to_string x) of
        None \<Rightarrow> None
      | Some s \<Rightarrow>
          if xs = [] then Some s
          else (case join xs of None \<Rightarrow> None | Some r \<Rightarrow> Some (s @ CHR '','' # r)))"

text \<open>\<^verbatim>\<open>Number(v)\<close>; \<open>None\<close> is the TypeError of a failed conversion to a primitive.\<close>

fun Number :: "jsval \<Rightarrow> jsnum option" where
  "Number None = Some NaN"
| "Number (Some JNull) = Some (Fin 0)"
| "Number (Some (JBool b)) = Some (Fin (if b then 1 else 0))"
| "Number (Some (JNum n)) = Some n"
| "Number (Some (JStr s)) = Some (string_to_number s)"
| "Number (Some (JArr xs)) = map_option string_to_number (join xs)"
| "Number (Some (JObj kvs)) =
     (if map_of kvs ''toString'' = None then Some NaN else None)"

subsection \<open>The two patterns and the methods the handlers call\<close>

text \<open>
  \<^verbatim>\<open>/^[a-zA-Z ]+$/\<close> and \<^verbatim>\<open>/^[0-9]+$/\<close>. Neither has the multiline flag, so \<^verbatim>\<open>^\<close> and
  \<^verbatim>\<open>$\<close> are the two ends of the string.
\<close>

definition name_pattern :: "string \<Rightarrow> bool" where
  "name_pattern s =
     (s \<noteq> [] \<and>
      list_all (\<lambda>c. (CHR ''a'' \<le> c \<and> c \<le> CHR ''z'') \<or> (CHR ''A'' \<le> c \<and> c \<le> CHR ''Z'')
                    \<or> c = CHR '' '') s)"

definition phone_pattern :: "string \<Rightarrow> bool" where
  "phone_pattern s = (s \<noteq> [] \<and> list_all (\<lambda>c. CHR ''0'' \<le> c \<and> c \<le> CHR ''9'') s)"

text \<open>
  \<^verbatim>\<open>pattern.test(v)\<close> converts its argument to a string first; \<open>None\<close> is the TypeError
  of that conversion.
\<close>

definition test :: "(string \<Rightarrow> bool) \<Rightarrow> json \<Rightarrow> bool option" where
  "test pattern v = map_option pattern (to_string v)"

text \<open>
  \<^verbatim>\<open>v.trim()\<close>: only a string has the method; on any other value the call throws a
  TypeError (\<open>None\<close>).
\<close>

definition call_trim :: "jsval \<Rightarrow> string option" where
  "call_trim v = (case v of Some (JStr s) \<Rightarrow> Some (trim s) | _ \<Rightarrow> None)"

section \<open>The store\<close>

text \<open>
  The two collections of the database, with the documents at the types the data model
  gives them: a lesson has a text subject and a sequence of locations, a location a text
  city and a number of spaces; \<open>other\<close> and \<open>loc_other\<close> hold every remaining field of a
  document. \<open>connected\<close> says whether \<^verbatim>\<open>connectDB\<close> has set the handles
  \<^verbatim>\<open>Lessons\<close> and \<^verbatim>\<open>Orders\<close>, which it does together. \<open>next_id\<close> stands for the
  driver's supply of fresh \<^verbatim>\<open>_id\<close> values. A call on a connected collection is taken to
  reach the database.
\<close>

record location =
  city :: string
  spaces :: jsnum
  loc_other :: "(string \<times> json) list"

record lesson =
  subject :: string
  locations :: "location list"
  other :: "(string \<times> json) list"

record order =
  order_id :: nat
  name :: string
  phone :: string
  items :: "json list"
  total_o :: jsnum
  createdAt :: nat

record db =
  connected :: bool
  Lessons :: "lesson list"
  Orders :: "order list"
  next_id :: nat

subsection \<open>\<^verbatim>\<open>Lessons.updateOne\<close> with the filter and update of server.js\<close>

text \<open>
  The filter is \<^verbatim>\<open>{ subject, 'locations.city': city }\<close> and the update
  \<^verbatim>\<open>{ $set: { 'locations.$.spaces': newSpaces } }\<close>. A string, number or boolean in a
  filter asks for equality, and a text field is only equal to the same string. The first
  lesson that matches is updated, and in it the first location that matches, which is
  what the positional \<^verbatim>\<open>$\<close> stands for.
\<close>

definition matches :: "json \<Rightarrow> json \<Rightarrow> lesson \<Rightarrow> bool" where
  "matches s c l = (JStr (subject l) = s \<and> list_ex (\<lambda>loc. JStr (city loc) = c) (locations l))"

fun set_spaces :: "json \<Rightarrow> jsnum \<Rightarrow> location list \<Rightarrow> location list" where
  "set_spaces c v [] = []"
| "set_spaces c v (loc # locs) =
     (if JStr (city loc) = c then loc\<lparr>spaces := v\<rparr> # locs else loc # set_spaces c v locs)"

text \<open>The result is \<^verbatim>\<open>matchedCount\<close> and the collection after the update.\<close>

fun update_first :: "json \<Rightarrow> json \<Rightarrow> jsnum \<Rightarrow> lesson list \<Rightarrow> nat \<times> lesson list" where
  "update_first s c v [] = (0, [])"
| "update_first s c v (l # ls) =
     (if matches s c l then (1, l\<lparr>locations := set_spaces c v (locations l)\<rparr> # ls)
      else (case update_first s c v ls of (n, ls') \<Rightarrow> (n, l # ls')))"

text \<open>
  An array or an object in a filter is not an equality with a text: the database reads an
  object as a query-operator expression or as an embedded document. What it does with one
  is MongoDB's and not in server.js, so it is the parameter \<open>df\<close>: from the two filter
  values, the new value and the collection to \<open>None\<close> when the driver rejects the call,
  or else to \<^verbatim>\<open>matchedCount\<close> and the collection afterwards.
\<close>

type_synonym doc_filter =
  "json \<Rightarrow> json \<Rightarrow> jsnum \<Rightarrow> lesson list \<Rightarrow> (nat \<times> lesson list) option"

definition is_document :: "json \<Rightarrow> bool" where
  "is_document j = (case j of JArr _ \<Rightarrow> True | JObj _ \<Rightarrow> True | _ \<Rightarrow> False)"

definition updateOne ::
    "doc_filter \<Rightarrow> json \<Rightarrow> json \<Rightarrow> jsnum \<Rightarrow> lesson list \<Rightarrow> (nat \<times> lesson list) option" where
  "updateOne df s c v ls =
     (if is_document s \<or> is_document c then df s c v ls else Some (update_first s c v ls))"

subsection \<open>One operator of the query language\<close>




section \<open>The handlers\<close>

datatype response =
    Message nat string
  | OrderSaved order
  | SpacesUpdated json json jsnum
  | LessonList "lesson list"

text \<open>
  \<open>Message n m\<close> is \<^verbatim>\<open>res.status(n).json({ message: m })\<close>; the other three are the
  bodies of the successful answers, sent with \<^verbatim>\<open>res.json\<close> and so with status 200:
  \<^verbatim>\<open>{ message: 'Order saved successfully', order }\<close>,
  \<^verbatim>\<open>{ ok: true, subject, city, spaces }\<close> and the array of lessons.
\<close>

fun status :: "response \<Rightarrow> nat" where
  "status (Message n m) = n"
| "status (OrderSaved ord) = 200"
| "status (SpacesUpdated s c v) = 200"
| "status (LessonList ls) = 200"

type_synonym body = "(string \<times> json) list"

text \<open>Reading a field of the body, as the destructuring of \<^verbatim>\<open>req.body\<close> does.\<close>

definition field :: "body \<Rightarrow> string \<Rightarrow> jsval" where
  "field b k = map_of b k"

text \<open>\<^verbatim>\<open>app.get('/api/lessons')\<close>\<close>

definition get_lessons :: "db \<Rightarrow> response \<times> db" where
  "get_lessons st =
     (if \<not> connected st then (Message 500 ''Failed to load lessons'', st)
      else (LessonList (Lessons st), st))"

text \<open>
  \<^verbatim>\<open>app.post('/api/order')\<close>, with \<open>now\<close> the value of \<^verbatim>\<open>new Date()\<close>. Every throw
  inside the \<^verbatim>\<open>try\<close> block ends in the 500 of the \<^verbatim>\<open>catch\<close> block. \<^verbatim>\<open>insertOne\<close>
  gives the document its \<^verbatim>\<open>_id\<close>, so the order in the answer carries it.
\<close>

definition post_order :: "nat \<Rightarrow> db \<Rightarrow> body \<Rightarrow> response \<times> db" where
  "post_order now st b =
     (if \<not> connected st then (Message 500 ''Failed to save order'', st)
      else
        (case test name_pattern (or_empty (field b ''name'')) of
           None \<Rightarrow> (Message 500 ''Failed to save order'', st)
         | Some False \<Rightarrow> (Message 400 ''Invalid name format'', st)
         | Some True \<Rightarrow>
        (case test phone_pattern (or_empty (field b ''phone'')) of
           None \<Rightarrow> (Message 500 ''Failed to save order'', st)
         | Some False \<Rightarrow> (Message 400 ''Invalid phone format'', st)
         | Some True \<Rightarrow>
        (case field b ''items'' of
           Some (JArr (x # xs)) \<Rightarrow>
             (case Number (field b ''total'') of
                None \<Rightarrow> (Message 500 ''Failed to save order'', st)
              | Some t \<Rightarrow>
                  if \<not> isFinite t then (Message 400 ''Invalid total'', st)
                  else
                    (case (call_trim (field b ''name''), call_trim (field b ''phone'')) of
                       (Some n, Some p) \<Rightarrow>
                         (let ord = \<lparr>order_id = next_id st, name = n, phone = p,
                                     items = x # xs, total_o = t, createdAt = now\<rparr>
                          in (OrderSaved ord,
                              st\<lparr>Orders := Orders st @ [ord], next_id := Suc (next_id st)\<rparr>))
                     | _ \<Rightarrow> (Message 500 ''Failed to save order'', st)))
         | _ \<Rightarrow> (Message 400 ''Order must contain items'', st)))))"

text \<open>\<^verbatim>\<open>app.put('/api/lessons')\<close>\<close>

definition put_lessons :: "doc_filter \<Rightarrow> db \<Rightarrow> body \<Rightarrow> response \<times> db" where
  "put_lessons df st b =
     (if \<not> connected st then (Message 500 ''Failed to update spaces'', st)
      else if \<not> truthy (field b ''subject'') \<or> \<not> truthy (field b ''city'')
              \<or> field b ''spaces'' = None
        then (Message 400 ''subject, city, and spaces are required'', st)
      else
        (case Number (field b ''spaces'') of
           None \<Rightarrow> (Message 500 ''Failed to update spaces'', st)
         | Some newSpaces \<Rightarrow>
             if \<not> isFinite newSpaces \<or> negative newSpaces
               then (Message 400 ''spaces must be a non-negative number'', st)
             else
               (case (field b ''subject'', field b ''city'') of
                  (Some s, Some c) \<Rightarrow>
                    (case updateOne df s c newSpaces (Lessons st) of
                       None \<Rightarrow> (Message 500 ''Failed to update spaces'', st)
                     | Some (matchedCount, ls) \<Rightarrow>
                         if matchedCount = 0
                           then (Message 404 ''Lesson or city not found'', st\<lparr>Lessons := ls\<rparr>)
                         else (SpacesUpdated s c newSpaces, st\<lparr>Lessons := ls\<rparr>))
                | _ \<Rightarrow> (Message 500 ''Failed to update spaces'', st))))"

section \<open>Vocabulary of the properties\<close>

text \<open>The position of the first element that satisfies \<open>P\<close> (the length, if none does).\<close>

definition first_index :: "('a \<Rightarrow> bool) \<Rightarrow> 'a list \<Rightarrow> nat" where
  "first_index P xs = length (takeWhile (\<lambda>x. \<not> P x) xs)"

text \<open>A property of every \<open>spaces\<close> value in the lessons collection.\<close>

definition all_spaces :: "(jsnum \<Rightarrow> bool) \<Rightarrow> lesson list \<Rightarrow> bool" where
  "all_spaces P ls = list_all (\<lambda>l. list_all (\<lambda>loc. P (spaces loc)) (locations l)) ls"

definition nonneg_integer :: "jsnum \<Rightarrow> bool" where
  "nonneg_integer n = (case n of Fin q \<Rightarrow> 0 \<le> q \<and> of_int \<lfloor>q\<rfloor> = q | _ \<Rightarrow> False)"

definition nonneg_number :: "jsnum \<Rightarrow> bool" where
  "nonneg_number n = (case n of Fin q \<Rightarrow> 0 \<le> q | _ \<Rightarrow> False)"

text \<open>The values for which \<^verbatim>\<open>!v\<close> is true, an absent field among them.\<close>

definition falsy_values :: "jsval list" where
  "falsy_values =
     [None, Some JNull, Some (JBool False), Some (JNum NaN), Some (JNum (Fin 0)), Some (JStr [])]"

text \<open>A string without the spaces at its two ends.\<close>

definition without_outer_spaces :: "string \<Rightarrow> string" where
  "without_outer_spaces s =
     rev (dropWhile (\<lambda>c. c = CHR '' '') (rev (dropWhile (\<lambda>c. c = CHR '' '') s)))"

section \<open>A concrete store\<close>

text \<open>
  Two lessons and no orders, with the connection made; and a database that rejects every
  array or object in a filter.
\<close>

definition example_db :: db where
  "example_db =
     \<lparr>connected = True,
      Lessons =
        [\<lparr>subject = ''Math'',
          locations = [\<lparr>city = ''Paris'', spaces = Fin 2, loc_other = []\<rparr>,
                       \<lparr>city = ''Berlin'', spaces = Fin 5, loc_other = []\<rparr>],
          other = [(''price'', JNum (Fin 100))]\<rparr>,
         \<lparr>subject = ''Art'',
          locations = [\<lparr>city = ''Berlin'', spaces = Fin 1, loc_other = []\<rparr>],
          other = []\<rparr>],
      Orders = [],
      next_id = 0\<rparr>"

definition no_df :: doc_filter where
  "no_df s c v ls = None"

text \<open>The same store before \<^verbatim>\<open>connectDB\<close> has finished.\<close>

definition offline_db :: db where
  "offline_db = example_db\<lparr>connected := False\<rparr>"

text \<open>A body for \<^verbatim>\<open>PUT /api/lessons\<close> that names the second location of the first lesson.\<close>

definition math_berlin :: "json \<Rightarrow> body" where
  "math_berlin x = [(''subject'', JStr ''Math''), (''city'', JStr ''Berlin''), (''spaces'', x)]"



text \<open>The lessons of \<open>example_db\<close> once that location has \<open>n\<close> spaces.\<close>

definition lessons_with :: "jsnum \<Rightarrow> lesson list" where
  "lessons_with n =
     [\<lparr>subject = ''Math'',
       locations = [\<lparr>city = ''Paris'', spaces = Fin 2, loc_other = []\<rparr>,
                    \<lparr>city = ''Berlin'', spaces = n, loc_other = []\<rparr>],
       other = [(''price'', JNum (Fin 100))]\<rparr>,
      \<lparr>subject = ''Art'',
       locations = [\<lparr>city = ''Berlin'', spaces = Fin 1, loc_other = []\<rparr>],
       other = []\<rparr>]"

section \<open>Facts about the update\<close>

lemma first_index_less: "list_ex P xs \<Longrightarrow> first_index P xs < length xs"
  by (induction xs) (auto simp: first_index_def)

lemma first_index_sat: "list_ex P xs \<Longrightarrow> P (xs ! first_index P xs)"
  unfolding first_index_def list_ex_iff
  by (induction xs) auto

lemma first_index_Cons:
  "first_index P (x # xs) = (if P x then 0 else Suc (first_index P xs))"
  by (simp add: first_index_def)

lemma set_spaces_city: "map city (set_spaces c v locs) = map city locs"
  by (induction locs) auto

lemma set_spaces_idem: "set_spaces c v (set_spaces c v locs) = set_spaces c v locs"
  by (induction locs) auto

lemma set_spaces_nth:
  "set_spaces c v locs =
     (if list_ex (\<lambda>loc. JStr (city loc) = c) locs
      then locs[first_index (\<lambda>loc. JStr (city loc) = c) locs :=
                 (locs ! first_index (\<lambda>loc. JStr (city loc) = c) locs)\<lparr>spaces := v\<rparr>]
      else locs)"
  by (induction locs) (auto simp: first_index_Cons)

lemma city_ex_map:
  "list_ex (\<lambda>loc. JStr (city loc) = c) locs = list_ex (\<lambda>x. JStr x = c) (map city locs)"
  by (induction locs) auto

lemma matches_set_spaces:
  "matches s c (l\<lparr>locations := set_spaces c' v (locations l)\<rparr>) = matches s c l"
  by (simp add: matches_def city_ex_map set_spaces_city)

lemma update_first_idem:
  "update_first s c v ls = (n, ls') \<Longrightarrow> update_first s c v ls' = (n, ls')"
proof (induction ls arbitrary: n ls')
  case Nil
  then show ?case by simp
next
  case (Cons l ls)
  show ?case
  proof (cases "matches s c l")
    case True
    with Cons.prems show ?thesis
      by (auto simp: matches_set_spaces set_spaces_idem)
  next
    case False
    with Cons.prems obtain ls'' where r: "update_first s c v ls = (n, ls'')" and e: "ls' = l # ls''"
      by (auto split: prod.splits)
    from Cons.IH [OF r] False e show ?thesis by simp
  qed
qed

lemma update_first_none:
  "\<not> list_ex (matches s c) ls \<Longrightarrow> update_first s c v ls = (0, ls)"
  by (induction ls) auto

lemma update_first_some:
  "list_ex (matches s c) ls \<Longrightarrow>
     update_first s c v ls =
       (1, ls[first_index (matches s c) ls :=
               (ls ! first_index (matches s c) ls)
                 \<lparr>locations := set_spaces c v (locations (ls ! first_index (matches s c) ls))\<rparr>])"
  by (induction ls) (auto simp: first_index_Cons)

lemma update_first_count:
  "fst (update_first s c v ls) = (if list_ex (matches s c) ls then 1 else 0)"
  by (simp add: update_first_none update_first_some)

lemma update_first_matches_after:
  "list_ex (matches s c) (snd (update_first s' c' v ls)) = list_ex (matches s c) ls"
  by (induction ls) (auto simp: matches_set_spaces split: prod.splits)

lemma update_first_twice:
  "snd (update_first s c v (snd (update_first s c v ls))) = snd (update_first s c v ls)"
proof -
  obtain n ls' where u: "update_first s c v ls = (n, ls')"
    by (cases "update_first s c v ls")
  from update_first_idem [OF u] u show ?thesis by simp
qed

section \<open>Facts about \<^verbatim>\<open>PUT /api/lessons\<close>\<close>

text \<open>What the handler answers to a payload that passes both of its checks.\<close>

lemma put_success:
  assumes "connected st"
    and "field b ''subject'' = Some s" and "truthy (Some s)" and "\<not> is_document s"
    and "field b ''city'' = Some c" and "truthy (Some c)" and "\<not> is_document c"
    and "field b ''spaces'' = Some x" and "Number (Some x) = Some v"
    and "isFinite v" and "\<not> negative v"
  shows "put_lessons df st b =
           (if list_ex (matches s c) (Lessons st)
            then (SpacesUpdated s c v, st\<lparr>Lessons := snd (update_first s c v (Lessons st))\<rparr>)
            else (Message 404 ''Lesson or city not found'', st))"
  using assms
  by (simp add: put_lessons_def updateOne_def update_first_none update_first_some)

text \<open>What a successful answer says about the request.\<close>

lemma put_SpacesUpdatedD:
  assumes "put_lessons df st b = (SpacesUpdated s c v, st')"
  shows "connected st" and "field b ''subject'' = Some s" and "truthy (Some s)"
    and "field b ''city'' = Some c" and "truthy (Some c)"
    and "field b ''spaces'' \<noteq> None" and "Number (field b ''spaces'') = Some v"
    and "isFinite v" and "\<not> negative v"
    and "\<exists>n. updateOne df s c v (Lessons st) = Some (Suc n, Lessons st')"
    and "st' = st\<lparr>Lessons := Lessons st'\<rparr>"
proof -
  have c: "connected st"
    using assms by (cases "connected st") (simp_all add: put_lessons_def)
  have p: "truthy (field b ''subject'')" "truthy (field b ''city'')" "field b ''spaces'' \<noteq> None"
    using assms c by (auto simp: put_lessons_def split: if_splits)
  obtain n where n: "Number (field b ''spaces'') = Some n"
    using assms c p by (cases "Number (field b ''spaces'')") (auto simp: put_lessons_def)
  have f: "isFinite n" "\<not> negative n"
    using assms c p n by (auto simp: put_lessons_def split: if_splits)
  obtain s' c' where sc: "field b ''subject'' = Some s'" "field b ''city'' = Some c'"
    using p by (cases "field b ''subject''"; cases "field b ''city''") auto
  obtain m ls where u: "updateOne df s' c' n (Lessons st) = Some (m, ls)"
    using assms c p n f sc
    by (cases "updateOne df s' c' n (Lessons st)") (auto simp: put_lessons_def)
  have r: "m \<noteq> 0 \<and> s' = s \<and> c' = c \<and> n = v \<and> st' = st\<lparr>Lessons := ls\<rparr>"
    using assms c p n f sc u by (auto simp: put_lessons_def split: if_splits)
  show "connected st" by (rule c)
  show "field b ''subject'' = Some s" using sc r by simp
  show "truthy (Some s)" using p sc r by simp
  show "field b ''city'' = Some c" using sc r by simp
  show "truthy (Some c)" using p sc r by simp
  show "field b ''spaces'' \<noteq> None" by (rule p)
  show "Number (field b ''spaces'') = Some v" using n r by simp
  show "isFinite v" using f r by simp
  show "\<not> negative v" using f r by simp
  show "\<exists>n. updateOne df s c v (Lessons st) = Some (Suc n, Lessons st')"
    using u r by (cases m) auto
  show "st' = st\<lparr>Lessons := Lessons st'\<rparr>" using r by simp
qed

lemma put_SpacesUpdated_scalar:
  assumes "put_lessons df st b = (SpacesUpdated s c v, st')"
    and "\<not> is_document s" and "\<not> is_document c"
  shows "list_ex (matches s c) (Lessons st)"
    and "st' = st\<lparr>Lessons := snd (update_first s c v (Lessons st))\<rparr>"
proof -
  from put_SpacesUpdatedD(10) [OF assms(1)] assms(2,3)
  obtain n where u: "update_first s c v (Lessons st) = (Suc n, Lessons st')"
    by (auto simp: updateOne_def)
  show "list_ex (matches s c) (Lessons st)"
    using update_first_count [of s c v "Lessons st"] u by (auto split: if_splits)
  show "st' = st\<lparr>Lessons := snd (update_first s c v (Lessons st))\<rparr>"
    using put_SpacesUpdatedD(11) [OF assms(1)] u by simp
qed

text \<open>The example request, evaluated.\<close>

lemma put_math_berlin:
  assumes "Number (Some x) = Some (Fin q)" and "0 \<le> q"
  shows "put_lessons df example_db (math_berlin x) =
           (SpacesUpdated (JStr ''Math'') (JStr ''Berlin'') (Fin q),
            example_db\<lparr>Lessons := lessons_with (Fin q)\<rparr>)"
  using assms
  by (simp add: put_lessons_def example_db_def math_berlin_def lessons_with_def field_def
      is_document_def isFinite_def negative_def matches_def updateOne_def)

section \<open>Facts about the two handlers, branch by branch\<close>

lemma or_empty_None: "or_empty None = JStr []"
  by (simp add: or_empty_def)

lemma or_empty_JStr: "or_empty (Some (JStr n)) = JStr n"
  by (simp add: or_empty_def)

lemma test_JStr: "test pattern (JStr n) = Some (pattern n)"
  by (simp add: test_def)

lemma name_pattern_Nil: "\<not> name_pattern []"
  by (simp add: name_pattern_def)

lemma phone_pattern_Nil: "\<not> phone_pattern []"
  by (simp add: phone_pattern_def)

lemma post_offline:
  "\<not> connected st \<Longrightarrow> post_order now st b = (Message 500 ''Failed to save order'', st)"
  by (simp add: post_order_def)

lemma put_offline:
  "\<not> connected st \<Longrightarrow> put_lessons df st b = (Message 500 ''Failed to update spaces'', st)"
  by (simp add: put_lessons_def)

lemma post_bad_name:
  "connected st \<Longrightarrow> test name_pattern (or_empty (field b ''name'')) = Some False \<Longrightarrow>
     post_order now st b = (Message 400 ''Invalid name format'', st)"
  by (simp add: post_order_def)

lemma post_bad_phone:
  "connected st \<Longrightarrow> test name_pattern (or_empty (field b ''name'')) = Some True \<Longrightarrow>
     test phone_pattern (or_empty (field b ''phone'')) = Some False \<Longrightarrow>
     post_order now st b = (Message 400 ''Invalid phone format'', st)"
  by (simp add: post_order_def)

lemma post_bad_items:
  "connected st \<Longrightarrow> test name_pattern (or_empty (field b ''name'')) = Some True \<Longrightarrow>
     test phone_pattern (or_empty (field b ''phone'')) = Some True \<Longrightarrow>
     \<nexists>x xs. field b ''items'' = Some (JArr (x # xs)) \<Longrightarrow>
     post_order now st b = (Message 400 ''Order must contain items'', st)"
  by (auto simp: post_order_def split: option.splits json.splits list.splits)

lemma post_bad_total:
  "connected st \<Longrightarrow> test name_pattern (or_empty (field b ''name'')) = Some True \<Longrightarrow>
     test phone_pattern (or_empty (field b ''phone'')) = Some True \<Longrightarrow>
     field b ''items'' = Some (JArr (x # xs)) \<Longrightarrow>
     Number (field b ''total'') = Some t \<Longrightarrow> \<not> isFinite t \<Longrightarrow>
     post_order now st b = (Message 400 ''Invalid total'', st)"
  by (simp add: post_order_def)

lemma post_saved:
  "connected st \<Longrightarrow> test name_pattern (or_empty (field b ''name'')) = Some True \<Longrightarrow>
     test phone_pattern (or_empty (field b ''phone'')) = Some True \<Longrightarrow>
     field b ''items'' = Some (JArr (x # xs)) \<Longrightarrow>
     Number (field b ''total'') = Some t \<Longrightarrow> isFinite t \<Longrightarrow>
     call_trim (field b ''name'') = Some n \<Longrightarrow> call_trim (field b ''phone'') = Some p \<Longrightarrow>
     post_order now st b =
       (OrderSaved \<lparr>order_id = next_id st, name = n, phone = p, items = x # xs,
                    total_o = t, createdAt = now\<rparr>,
        st\<lparr>Orders := Orders st @ [\<lparr>order_id = next_id st, name = n, phone = p, items = x # xs,
                    total_o = t, createdAt = now\<rparr>],
           next_id := Suc (next_id st)\<rparr>)"
  by (simp add: post_order_def Let_def)

lemma put_missing:
  "connected st \<Longrightarrow>
     \<not> truthy (field b ''subject'') \<or> \<not> truthy (field b ''city'') \<or> field b ''spaces'' = None \<Longrightarrow>
     put_lessons df st b = (Message 400 ''subject, city, and spaces are required'', st)"
  by (auto simp: put_lessons_def)

lemma put_bad_spaces:
  "connected st \<Longrightarrow> truthy (field b ''subject'') \<Longrightarrow> truthy (field b ''city'') \<Longrightarrow>
     field b ''spaces'' \<noteq> None \<Longrightarrow> Number (field b ''spaces'') = Some n \<Longrightarrow>
     \<not> isFinite n \<or> negative n \<Longrightarrow>
     put_lessons df st b = (Message 400 ''spaces must be a non-negative number'', st)"
  by (auto simp: put_lessons_def)

text \<open>The handler of the orders changes the store only when it answers with the order.\<close>

lemma post_unchanged:
  "(\<nexists>ord. fst (post_order now st b) = OrderSaved ord) \<Longrightarrow> snd (post_order now st b) = st"
  by (auto simp: post_order_def Let_def split: option.splits bool.splits json.splits list.splits if_splits)

section \<open>Further facts the claims share\<close>

lemma update_first_at:
  assumes "list_ex (matches s c) ls"
  shows "let i = first_index (matches s c) ls;
             l = ls ! i;
             j = first_index (\<lambda>loc. JStr (city loc) = c) (locations l);
             loc = locations l ! j
         in i < length ls \<and> JStr (subject l) = s
          \<and> j < length (locations l) \<and> JStr (city loc) = c
          \<and> snd (update_first s c v ls)
              = ls[i := l\<lparr>locations := (locations l)[j := loc\<lparr>spaces := v\<rparr>]\<rparr>]"
proof -
  define i where "i = first_index (matches s c) ls"
  define l where "l = ls ! i"
  define j where "j = first_index (\<lambda>loc. JStr (city loc) = c) (locations l)"
  define loc where "loc = locations l ! j"
  have i: "i < length ls"
    using assms by (simp add: i_def first_index_less)
  have "matches s c l"
    using assms by (simp add: l_def i_def first_index_sat)
  then have ex: "list_ex (\<lambda>loc. JStr (city loc) = c) (locations l)" and sub: "JStr (subject l) = s"
    by (simp_all add: matches_def)
  have j: "j < length (locations l)"
    using ex by (simp add: j_def first_index_less)
  have cj: "JStr (city loc) = c"
    using first_index_sat [OF ex] by (simp add: loc_def j_def)
  have ss: "set_spaces c v (locations l) = (locations l)[j := loc\<lparr>spaces := v\<rparr>]"
    using ex set_spaces_nth [of c v "locations l"] by (simp add: j_def loc_def)
  have "update_first s c v ls = (1, ls[i := l\<lparr>locations := set_spaces c v (locations l)\<rparr>])"
    using update_first_some [OF assms, of v] unfolding i_def l_def .
  with ss have "snd (update_first s c v ls)
      = ls[i := l\<lparr>locations := (locations l)[j := loc\<lparr>spaces := v\<rparr>]\<rparr>]"
    by simp
  with i sub j cj have "i < length ls \<and> JStr (subject l) = s
          \<and> j < length (locations l) \<and> JStr (city loc) = c
          \<and> snd (update_first s c v ls)
              = ls[i := l\<lparr>locations := (locations l)[j := loc\<lparr>spaces := v\<rparr>]\<rparr>]"
    by simp
  then show ?thesis
    unfolding Let_def i_def [symmetric] l_def [symmetric] j_def [symmetric] loc_def [symmetric] .
qed

lemma string_to_number_empty: "string_to_number [] = Fin 0"
  by (simp add: string_to_number_def trim_def)

lemma floor_rat_numeral: "\<lfloor>numeral a / numeral b :: rat\<rfloor> = numeral a div numeral b"
  by (metis floor_divide_of_int_eq of_int_numeral)

text \<open>What it takes to evaluate \<^verbatim>\<open>Number\<close> on a string.\<close>

lemmas number_eval =
  string_to_number_def trim_def ws1_def ws2_def ws3_def non_decimal_def decimal_literal_def
  unsigned_decimal_def is_digit_def digit_val_def exponent_part_def number_in_def scale10_def
  to_double_def round_half_even_def pow2_def Let_def floor_rat_numeral

lemma falsy_iff: "\<not> truthy v \<longleftrightarrow> v \<in> set falsy_values"
  by (cases v rule: truthy.cases) (auto simp: falsy_values_def)

lemma all_spaces_update_first:
  "P v \<Longrightarrow> all_spaces P ls \<Longrightarrow> all_spaces P (snd (update_first s c v ls))"
proof (induction ls)
  case Nil
  then show ?case by (simp add: all_spaces_def)
next
  case (Cons l ls)
  have locs: "list_all (\<lambda>loc. P (spaces loc)) locs \<Longrightarrow>
      list_all (\<lambda>loc. P (spaces loc)) (set_spaces c v locs)" for locs
    using Cons.prems(1) by (induction locs) auto
  from Cons locs [of "locations l"] show ?case
    by (auto simp: all_spaces_def split: prod.splits)
qed



text \<open>
  On a string of letters and spaces \<^verbatim>\<open>trim\<close> takes the spaces off the two ends, and on
  a string of digits it changes nothing.
\<close>

lemma name_char_ws:
  assumes "(CHR ''a'' \<le> a \<and> a \<le> CHR ''z'') \<or> (CHR ''A'' \<le> a \<and> a \<le> CHR ''Z'') \<or> a = CHR '' ''"
  shows "ws1 a \<longleftrightarrow> a = CHR '' ''" and "\<not> ws2 a b" and "\<not> ws2 b a"
    and "\<not> ws3 a b c" and "\<not> ws3 c b a"
proof -
  have "a < CHR 0x80"
    using assms
    by (auto intro: le_less_trans [where y = "CHR ''z''"] le_less_trans [where y = "CHR ''Z''"])
  with assms show "ws1 a \<longleftrightarrow> a = CHR '' ''" and "\<not> ws2 a b" and "\<not> ws2 b a"
    and "\<not> ws3 a b c" and "\<not> ws3 c b a"
    by (auto simp: ws1_def ws2_def ws3_def)
qed

lemma strip_name_chars:
  "\<forall>c \<in> set s. (CHR ''a'' \<le> c \<and> c \<le> CHR ''z'') \<or> (CHR ''A'' \<le> c \<and> c \<le> CHR ''Z'')
       \<or> c = CHR '' '' \<Longrightarrow>
   strip rv s = dropWhile (\<lambda>c. c = CHR '' '') s"
  by (induction rv s rule: strip.induct) (auto simp: name_char_ws)

lemma trim_name: "name_pattern n \<Longrightarrow> trim n = without_outer_spaces n"
proof -
  let ?P = "\<lambda>c. (CHR ''a'' \<le> c \<and> c \<le> CHR ''z'') \<or> (CHR ''A'' \<le> c \<and> c \<le> CHR ''Z'')
       \<or> c = CHR '' ''"
  assume "name_pattern n"
  then have a: "\<forall>c \<in> set n. ?P c"
    by (simp add: name_pattern_def list_all_iff)
  then have b: "\<forall>c \<in> set (rev (dropWhile (\<lambda>c. c = CHR '' '') n)). ?P c"
    by (auto dest: set_dropWhileD)
  show ?thesis
    unfolding trim_def without_outer_spaces_def
    by (simp only: strip_name_chars [OF a] strip_name_chars [OF b])
qed

lemma digit_ws:
  assumes "CHR ''0'' \<le> a \<and> a \<le> CHR ''9''"
  shows "\<not> ws1 a" and "\<not> ws2 a b" and "\<not> ws2 b a" and "\<not> ws3 a b c" and "\<not> ws3 c b a"
proof -
  have "a < CHR 0x80"
    using assms by (auto intro: le_less_trans [where y = "CHR ''9''"])
  with assms show "\<not> ws1 a" and "\<not> ws2 a b" and "\<not> ws2 b a" and "\<not> ws3 a b c"
    and "\<not> ws3 c b a"
    by (auto simp: ws1_def ws2_def ws3_def)
qed

lemma strip_digits:
  "\<forall>c \<in> set s. CHR ''0'' \<le> c \<and> c \<le> CHR ''9'' \<Longrightarrow> strip rv s = s"
  by (induction rv s rule: strip.induct) (auto simp: digit_ws)

lemma trim_phone: "phone_pattern p \<Longrightarrow> trim p = p"
  by (simp add: phone_pattern_def trim_def strip_digits list_all_iff)

section \<open>The claims\<close>

text \<open>
  C1 (as amended). With the connection made, a request to \<^verbatim>\<open>POST /api/order\<close> or
  \<^verbatim>\<open>PUT /api/lessons\<close> whose payload fails a validation rule gets the 400 answer of the
  first rule it fails, and the store is left as it was: the name pattern, then the phone
  pattern, then the non-empty array of items, then the finite total, for an order; the
  three required fields, then the finite non-negative number of spaces, for an update.
  Before the connection is made both handlers answer 500 whatever the payload is, because
  \<^verbatim>\<open>if (!Orders) throw\<close> and \<^verbatim>\<open>if (!Lessons) throw\<close> come before the checks; the
  store is left as it was there too.
\<close>

theorem validation_after_connection_check:
  "(connected st \<longrightarrow>
      (test name_pattern (or_empty (field b ''name'')) = Some False
         \<longrightarrow> post_order now st b = (Message 400 ''Invalid name format'', st))
    \<and> (test name_pattern (or_empty (field b ''name'')) = Some True
        \<and> test phone_pattern (or_empty (field b ''phone'')) = Some False
         \<longrightarrow> post_order now st b = (Message 400 ''Invalid phone format'', st))
    \<and> (test name_pattern (or_empty (field b ''name'')) = Some True
        \<and> test phone_pattern (or_empty (field b ''phone'')) = Some True
        \<and> (\<nexists>x xs. field b ''items'' = Some (JArr (x # xs)))
         \<longrightarrow> post_order now st b = (Message 400 ''Order must contain items'', st))
    \<and> (test name_pattern (or_empty (field b ''name'')) = Some True
        \<and> test phone_pattern (or_empty (field b ''phone'')) = Some True
        \<and> (\<exists>x xs. field b ''items'' = Some (JArr (x # xs)))
        \<and> Number (field b ''total'') = Some t \<and> \<not> isFinite t
         \<longrightarrow> post_order now st b = (Message 400 ''Invalid total'', st))
    \<and> (\<not> truthy (field b ''subject'') \<or> \<not> truthy (field b ''city'') \<or> field b ''spaces'' = None
         \<longrightarrow> put_lessons df st b = (Message 400 ''subject, city, and spaces are required'', st))
    \<and> (truthy (field b ''subject'') \<and> truthy (field b ''city'') \<and> field b ''spaces'' \<noteq> None
        \<and> Number (field b ''spaces'') = Some n \<and> (\<not> isFinite n \<or> negative n)
         \<longrightarrow> put_lessons df st b = (Message 400 ''spaces must be a non-negative number'', st)))
 \<and> (\<not> connected st \<longrightarrow>
      post_order now st b = (Message 500 ''Failed to save order'', st)
    \<and> put_lessons df st b = (Message 500 ''Failed to update spaces'', st))"
proof (intro conjI impI)
  assume "\<not> connected st"
  then show "post_order now st b = (Message 500 ''Failed to save order'', st)"
    by (rule post_offline)
next
  assume "\<not> connected st"
  then show "put_lessons df st b = (Message 500 ''Failed to update spaces'', st)"
    by (rule put_offline)
next
  assume "connected st" "test name_pattern (or_empty (field b ''name'')) = Some False"
  then show "post_order now st b = (Message 400 ''Invalid name format'', st)"
    by (rule post_bad_name)
next
  assume "connected st" "test name_pattern (or_empty (field b ''name'')) = Some True
        \<and> test phone_pattern (or_empty (field b ''phone'')) = Some False"
  then show "post_order now st b = (Message 400 ''Invalid phone format'', st)"
    by (simp add: post_bad_phone)
next
  assume "connected st" "test name_pattern (or_empty (field b ''name'')) = Some True
        \<and> test phone_pattern (or_empty (field b ''phone'')) = Some True
        \<and> (\<nexists>x xs. field b ''items'' = Some (JArr (x # xs)))"
  then show "post_order now st b = (Message 400 ''Order must contain items'', st)"
    by (simp add: post_bad_items)
next
  assume "connected st" "test name_pattern (or_empty (field b ''name'')) = Some True
        \<and> test phone_pattern (or_empty (field b ''phone'')) = Some True
        \<and> (\<exists>x xs. field b ''items'' = Some (JArr (x # xs)))
        \<and> Number (field b ''total'') = Some t \<and> \<not> isFinite t"
  then show "post_order now st b = (Message 400 ''Invalid total'', st)"
    by (auto simp: post_bad_total)
next
  assume "connected st"
    "\<not> truthy (field b ''subject'') \<or> \<not> truthy (field b ''city'') \<or> field b ''spaces'' = None"
  then show "put_lessons df st b = (Message 400 ''subject, city, and spaces are required'', st)"
    by (rule put_missing)
next
  assume "connected st" "truthy (field b ''subject'') \<and> truthy (field b ''city'') \<and> field b ''spaces'' \<noteq> None
        \<and> Number (field b ''spaces'') = Some n \<and> (\<not> isFinite n \<or> negative n)"
  then show "put_lessons df st b = (Message 400 ''spaces must be a non-negative number'', st)"
    by (simp add: put_bad_spaces)
qed

theorem validation_after_connection_check_witness:
  "connected example_db
 \<and> test name_pattern (or_empty (field [] ''name'')) = Some False
 \<and> post_order 0 example_db [] = (Message 400 ''Invalid name format'', example_db)
 \<and> put_lessons no_df example_db [] = (Message 400 ''subject, city, and spaces are required'', example_db)
 \<and> post_order 0 offline_db [] = (Message 500 ''Failed to save order'', offline_db)
 \<and> put_lessons no_df offline_db [] = (Message 500 ''Failed to update spaces'', offline_db)"
proof -
  have c: "connected example_db" "\<not> connected offline_db"
    by (simp_all add: example_db_def offline_db_def)
  have t: "test name_pattern (or_empty (field [] ''name'')) = Some False"
    by (simp add: field_def or_empty_def test_def name_pattern_def)
  have m: "\<not> truthy (field [] ''subject'')"
    by (simp add: field_def)
  from validation_after_connection_check [of example_db "[]" 0 NaN no_df NaN]
    validation_after_connection_check [of offline_db "[]" 0 NaN no_df NaN] c t m
  show ?thesis by simp
qed

text \<open>
  C1 as stated fails: before the connection is made the empty body, whose missing name
  fails the name pattern, is answered with 500 and not with 400.
\<close>

theorem validation_400_when_not_connected_counterexample:
  "\<not> connected offline_db
 \<and> test name_pattern (or_empty (field [] ''name'')) = Some False
 \<and> post_order 0 offline_db [] = (Message 500 ''Failed to save order'', offline_db)
 \<and> status (fst (post_order 0 offline_db [])) \<noteq> 400
 \<and> field [] ''spaces'' = None
 \<and> put_lessons no_df offline_db [] = (Message 500 ''Failed to update spaces'', offline_db)
 \<and> status (fst (put_lessons no_df offline_db [])) \<noteq> 400"
  by (simp add: offline_db_def example_db_def field_def or_empty_def test_def name_pattern_def
      post_order_def put_lessons_def)

text \<open>
  C2. updateSpaces is idempotent. Take any store with the connection made and any request
  that passes the checks of \<^verbatim>\<open>PUT /api/lessons\<close>, whose subject and city are strings,
  numbers or booleans and match a lesson. The answer is 200 with
  \<^verbatim>\<open>{ok: true, subject, city, spaces}\<close>, and sending the same request again, to the
  store as the first one left it, gives the same answer and leaves the store as it is.
\<close>

theorem updateSpaces_idempotent:
  assumes "connected st"
    and "field b ''subject'' = Some s" and "truthy (Some s)" and "\<not> is_document s"
    and "field b ''city'' = Some c" and "truthy (Some c)" and "\<not> is_document c"
    and "field b ''spaces'' = Some x" and "Number (Some x) = Some v"
    and "isFinite v" and "\<not> negative v"
    and "list_ex (matches s c) (Lessons st)"
  shows "fst (put_lessons df st b) = SpacesUpdated s c v
       \<and> put_lessons df (snd (put_lessons df st b)) b = put_lessons df st b"
proof -
  let ?st' = "st\<lparr>Lessons := snd (update_first s c v (Lessons st))\<rparr>"
  have one: "put_lessons df st b = (SpacesUpdated s c v, ?st')"
    using assms by (simp add: put_success)
  have c': "connected ?st'"
    using assms(1) by simp
  have m: "list_ex (matches s c) (Lessons ?st')"
    using assms(12) by (simp add: update_first_matches_after)
  have "put_lessons df ?st' b = (SpacesUpdated s c v, ?st')"
    using put_success [OF c' assms(2-11), of df] m by (simp add: update_first_twice)
  with one show ?thesis by simp
qed

theorem updateSpaces_idempotent_witness:
  "put_lessons no_df example_db (math_berlin (JNum (Fin 3)))
     = (SpacesUpdated (JStr ''Math'') (JStr ''Berlin'') (Fin 3),
        example_db\<lparr>Lessons := lessons_with (Fin 3)\<rparr>)
   \<and> put_lessons no_df (snd (put_lessons no_df example_db (math_berlin (JNum (Fin 3)))))
        (math_berlin (JNum (Fin 3)))
     = put_lessons no_df example_db (math_berlin (JNum (Fin 3)))"
proof -
  let ?b = "math_berlin (JNum (Fin 3))"
  have h: "connected example_db" "field ?b ''subject'' = Some (JStr ''Math'')"
    "truthy (Some (JStr ''Math''))" "\<not> is_document (JStr ''Math'')"
    "field ?b ''city'' = Some (JStr ''Berlin'')"
    "truthy (Some (JStr ''Berlin''))" "\<not> is_document (JStr ''Berlin'')"
    "field ?b ''spaces'' = Some (JNum (Fin 3))" "Number (Some (JNum (Fin 3))) = Some (Fin 3)"
    "isFinite (Fin 3)" "\<not> negative (Fin 3)"
    "list_ex (matches (JStr ''Math'') (JStr ''Berlin'')) (Lessons example_db)"
    by (simp_all add: example_db_def math_berlin_def field_def is_document_def isFinite_def
        negative_def matches_def)
  from updateSpaces_idempotent [OF h, of no_df] show ?thesis
    by (simp add: put_math_berlin)
qed

text \<open>
  C3. A successful \<^verbatim>\<open>PUT /api/lessons\<close> changes one thing. Let \<open>i\<close> be the position of
  the first lesson with the subject and a location of the city, and \<open>j\<close> the position of
  the first such location in it. The store afterwards is the store before with the spaces
  of location \<open>j\<close> of lesson \<open>i\<close> set to the new value. So the orders are as they were,
  every other lesson is as it was, lesson \<open>i\<close> keeps its subject and its other fields,
  every other location of it is as it was, and location \<open>j\<close> keeps its city and its
  other fields. (Subject and city are strings, numbers or booleans.)
\<close>

theorem put_changes_one_spaces:
  assumes "put_lessons df st b = (SpacesUpdated s c v, st')"
    and "\<not> is_document s" and "\<not> is_document c"
  shows
    "let ls = Lessons st;
         i = first_index (matches s c) ls;
         l = ls ! i;
         j = first_index (\<lambda>loc. JStr (city loc) = c) (locations l);
         loc = locations l ! j
     in i < length ls \<and> JStr (subject l) = s
      \<and> j < length (locations l) \<and> JStr (city loc) = c
      \<and> st' = st\<lparr>Lessons := ls[i := l\<lparr>locations := (locations l)[j := loc\<lparr>spaces := v\<rparr>]\<rparr>]\<rparr>
      \<and> Orders st' = Orders st
      \<and> length (Lessons st') = length ls
      \<and> (\<forall>k < length ls. k \<noteq> i \<longrightarrow> Lessons st' ! k = ls ! k)
      \<and> subject (Lessons st' ! i) = subject l
      \<and> other (Lessons st' ! i) = other l
      \<and> length (locations (Lessons st' ! i)) = length (locations l)
      \<and> (\<forall>m < length (locations l). m \<noteq> j \<longrightarrow> locations (Lessons st' ! i) ! m = locations l ! m)
      \<and> locations (Lessons st' ! i) ! j = loc\<lparr>spaces := v\<rparr>"
proof -
  have m: "list_ex (matches s c) (Lessons st)"
    and e: "st' = st\<lparr>Lessons := snd (update_first s c v (Lessons st))\<rparr>"
    using put_SpacesUpdated_scalar [OF assms] by simp_all
  from update_first_at [OF m, of v] e show ?thesis
    by (simp add: Let_def)
qed

theorem put_changes_one_spaces_witness:
  "put_lessons no_df example_db (math_berlin (JNum (Fin 3)))
     = (SpacesUpdated (JStr ''Math'') (JStr ''Berlin'') (Fin 3),
        example_db\<lparr>Lessons := lessons_with (Fin 3)\<rparr>)
   \<and> \<not> is_document (JStr ''Math'') \<and> \<not> is_document (JStr ''Berlin'')
   \<and> first_index (matches (JStr ''Math'') (JStr ''Berlin'')) (Lessons example_db) = 0
   \<and> first_index (\<lambda>loc. JStr (city loc) = JStr ''Berlin'') (locations (Lessons example_db ! 0)) = 1
   \<and> Orders (example_db\<lparr>Lessons := lessons_with (Fin 3)\<rparr>) = Orders example_db
   \<and> lessons_with (Fin 3) ! 1 = Lessons example_db ! 1
   \<and> other (lessons_with (Fin 3) ! 0) = other (Lessons example_db ! 0)
   \<and> locations (lessons_with (Fin 3) ! 0) ! 0 = locations (Lessons example_db ! 0) ! 0
   \<and> locations (lessons_with (Fin 3) ! 0) ! 1
       = (locations (Lessons example_db ! 0) ! 1)\<lparr>spaces := Fin 3\<rparr>"
proof -
  have p: "put_lessons no_df example_db (math_berlin (JNum (Fin 3)))
     = (SpacesUpdated (JStr ''Math'') (JStr ''Berlin'') (Fin 3),
        example_db\<lparr>Lessons := lessons_with (Fin 3)\<rparr>)"
    by (simp add: put_math_berlin)
  have d: "\<not> is_document (JStr ''Math'')" "\<not> is_document (JStr ''Berlin'')"
    by (simp_all add: is_document_def)
  have i: "first_index (matches (JStr ''Math'') (JStr ''Berlin'')) (Lessons example_db) = 0"
    "first_index (\<lambda>loc. JStr (city loc) = JStr ''Berlin'') (locations (Lessons example_db ! 0)) = 1"
    by (simp_all add: first_index_def matches_def example_db_def)
  from put_changes_one_spaces [OF p d] p d i show ?thesis
    by (simp add: Let_def example_db_def lessons_with_def)
qed




text \<open>
  C5 (as amended). Let \<open>s\<close> be the string that \<^verbatim>\<open>POST /api/order\<close> tests the name
  pattern on, the conversion of \<^verbatim>\<open>name || ''\<close>: the name itself when it is a text, the
  empty string when it is missing. If \<open>s\<close> does not match \<^verbatim>\<open>^[a-zA-Z ]+$\<close>, no order is
  inserted, and with the connection made the answer is 400 with the message
  \<^verbatim>\<open>Invalid name format\<close>. If \<open>s\<close> matches, the answer is never that one. The empty
  string does not match. Before the connection is made the answer is 500 whatever the
  name is.
\<close>

theorem invalid_name_rejected:
  "(to_string (or_empty (field b ''name'')) = Some s \<and> \<not> name_pattern s
      \<longrightarrow> snd (post_order now st b) = st
        \<and> (connected st \<longrightarrow> fst (post_order now st b) = Message 400 ''Invalid name format''))
 \<and> (to_string (or_empty (field b ''name'')) = Some s \<and> name_pattern s
      \<longrightarrow> fst (post_order now st b) \<noteq> Message 400 ''Invalid name format'')
 \<and> (field b ''name'' = None \<longrightarrow> to_string (or_empty (field b ''name'')) = Some [])
 \<and> (field b ''name'' = Some (JStr n) \<longrightarrow> to_string (or_empty (field b ''name'')) = Some n)
 \<and> \<not> name_pattern []
 \<and> (\<not> connected st \<longrightarrow> post_order now st b = (Message 500 ''Failed to save order'', st))"
proof (intro conjI impI)
  assume a: "to_string (or_empty (field b ''name'')) = Some s \<and> \<not> name_pattern s"
  then have t: "test name_pattern (or_empty (field b ''name'')) = Some False"
    by (simp add: test_def)
  show "snd (post_order now st b) = st"
    using t by (cases "connected st") (simp_all add: post_bad_name post_offline)
  assume "connected st"
  then show "fst (post_order now st b) = Message 400 ''Invalid name format''"
    using t by (simp add: post_bad_name)
next
  assume a: "to_string (or_empty (field b ''name'')) = Some s \<and> name_pattern s"
  then have t: "test name_pattern (or_empty (field b ''name'')) = Some True"
    by (simp add: test_def)
  show "fst (post_order now st b) \<noteq> Message 400 ''Invalid name format''"
    using t
    by (simp add: post_order_def Let_def split: option.splits bool.splits json.splits list.splits)
next
  assume "field b ''name'' = None"
  then show "to_string (or_empty (field b ''name'')) = Some []"
    by (simp add: or_empty_None)
next
  assume "field b ''name'' = Some (JStr n)"
  then show "to_string (or_empty (field b ''name'')) = Some n"
    by (simp add: or_empty_JStr)
next
  show "\<not> name_pattern []"
    by (rule name_pattern_Nil)
next
  assume "\<not> connected st"
  then show "post_order now st b = (Message 500 ''Failed to save order'', st)"
    by (rule post_offline)
qed

theorem invalid_name_rejected_witness:
  "to_string (or_empty (field [(''name'', JStr ''R2D2''), (''phone'', JStr ''555'')] ''name''))
     = Some ''R2D2''
 \<and> \<not> name_pattern ''R2D2''
 \<and> post_order 7 example_db [(''name'', JStr ''R2D2''), (''phone'', JStr ''555'')]
     = (Message 400 ''Invalid name format'', example_db)
 \<and> to_string (or_empty (field [(''phone'', JStr ''555'')] ''name'')) = Some []
 \<and> post_order 7 example_db [(''phone'', JStr ''555'')]
     = (Message 400 ''Invalid name format'', example_db)
 \<and> to_string (or_empty (field [(''name'', JStr ''Jane Doe'')] ''name'')) = Some ''Jane Doe''
 \<and> name_pattern ''Jane Doe''
 \<and> fst (post_order 7 example_db [(''name'', JStr ''Jane Doe'')]) \<noteq> Message 400 ''Invalid name format''
 \<and> post_order 7 offline_db [(''name'', JStr ''R2D2''), (''phone'', JStr ''555'')]
     = (Message 500 ''Failed to save order'', offline_db)"
proof -
  let ?b = "[(''name'', JStr ''R2D2''), (''phone'', JStr ''555'')]"
  have h: "to_string (or_empty (field ?b ''name'')) = Some ''R2D2''" "\<not> name_pattern ''R2D2''"
    "to_string (or_empty (field [(''phone'', JStr ''555'')] ''name'')) = Some []"
    "to_string (or_empty (field [(''name'', JStr ''Jane Doe'')] ''name'')) = Some ''Jane Doe''"
    "name_pattern ''Jane Doe''" "connected example_db" "\<not> connected offline_db"
    by (simp_all add: field_def or_empty_def name_pattern_def example_db_def offline_db_def)
  from invalid_name_rejected [of ?b "''R2D2''" 7 example_db "''R2D2''"]
    invalid_name_rejected [of "[(''phone'', JStr ''555'')]" "[]" 7 example_db "[]"]
    invalid_name_rejected [of "[(''name'', JStr ''Jane Doe'')]" "''Jane Doe''" 7 example_db "[]"]
    invalid_name_rejected [of ?b "''R2D2''" 7 offline_db "''R2D2''"]
    h
  show ?thesis
    by (simp add: prod_eq_iff)
qed

text \<open>
  C5 as stated fails: before the connection is made a payload whose name does not match
  the pattern is answered with 500 and not with 400, because \<^verbatim>\<open>if (!Orders) throw\<close>
  comes before the test of the name.
\<close>

theorem invalid_name_before_connection_counterexample:
  "\<not> connected offline_db
 \<and> field [(''name'', JStr ''R2D2''), (''phone'', JStr ''555'')] ''name'' = Some (JStr ''R2D2'')
 \<and> \<not> name_pattern ''R2D2''
 \<and> post_order 7 offline_db [(''name'', JStr ''R2D2''), (''phone'', JStr ''555'')]
     = (Message 500 ''Failed to save order'', offline_db)
 \<and> fst (post_order 7 offline_db [(''name'', JStr ''R2D2''), (''phone'', JStr ''555'')])
     \<noteq> Message 400 ''Invalid name format''"
  by (simp add: offline_db_def example_db_def field_def name_pattern_def post_order_def)

text \<open>
  C6 (as amended). A successful \<^verbatim>\<open>PUT /api/lessons\<close> stores \<^verbatim>\<open>Number(spaces)\<close>, which
  is a finite number that is not negative. If every spaces value was such a number before,
  every one is afterwards; if moreover every one was an integer and the stored value is
  an integer, every one is an integer afterwards. (Subject and city are strings, numbers
  or booleans.)
\<close>

theorem put_keeps_spaces_nonnegative:
  assumes "put_lessons df st b = (SpacesUpdated s c v, st')"
    and "\<not> is_document s" and "\<not> is_document c"
  shows "Number (field b ''spaces'') = Some v \<and> nonneg_number v
       \<and> (all_spaces nonneg_number (Lessons st) \<longrightarrow> all_spaces nonneg_number (Lessons st'))
       \<and> (nonneg_integer v \<and> all_spaces nonneg_integer (Lessons st)
            \<longrightarrow> all_spaces nonneg_integer (Lessons st'))"
proof -
  have e: "Lessons st' = snd (update_first s c v (Lessons st))"
    using put_SpacesUpdated_scalar(2) [OF assms] by simp
  have v: "nonneg_number v"
    using put_SpacesUpdatedD(8,9) [OF assms(1)]
    by (cases v) (simp_all add: nonneg_number_def isFinite_def negative_def)
  from e v put_SpacesUpdatedD(7) [OF assms(1)] show ?thesis
    by (simp add: all_spaces_update_first)
qed

theorem put_keeps_spaces_nonnegative_witness:
  "put_lessons no_df example_db (math_berlin (JNum (Fin (5 / 2))))
     = (SpacesUpdated (JStr ''Math'') (JStr ''Berlin'') (Fin (5 / 2)),
        example_db\<lparr>Lessons := lessons_with (Fin (5 / 2))\<rparr>)
 \<and> \<not> is_document (JStr ''Math'') \<and> \<not> is_document (JStr ''Berlin'')
 \<and> all_spaces nonneg_number (Lessons example_db)
 \<and> all_spaces nonneg_number (lessons_with (Fin (5 / 2)))
 \<and> put_lessons no_df example_db (math_berlin (JStr ''4''))
     = (SpacesUpdated (JStr ''Math'') (JStr ''Berlin'') (Fin 4),
        example_db\<lparr>Lessons := lessons_with (Fin 4)\<rparr>)
 \<and> nonneg_integer (Fin 4) \<and> all_spaces nonneg_integer (Lessons example_db)
 \<and> all_spaces nonneg_integer (lessons_with (Fin 4))"
proof -
  have n: "Number (Some (JStr ''4'')) = Some (Fin 4)"
    by (simp add: number_eval)
  have p: "put_lessons no_df example_db (math_berlin (JNum (Fin (5 / 2))))
     = (SpacesUpdated (JStr ''Math'') (JStr ''Berlin'') (Fin (5 / 2)),
        example_db\<lparr>Lessons := lessons_with (Fin (5 / 2))\<rparr>)"
    "put_lessons no_df example_db (math_berlin (JStr ''4''))
     = (SpacesUpdated (JStr ''Math'') (JStr ''Berlin'') (Fin 4),
        example_db\<lparr>Lessons := lessons_with (Fin 4)\<rparr>)"
    using n by (simp_all add: put_math_berlin)
  have d: "\<not> is_document (JStr ''Math'')" "\<not> is_document (JStr ''Berlin'')"
    by (simp_all add: is_document_def)
  have a: "all_spaces nonneg_number (Lessons example_db)"
    "nonneg_integer (Fin 4)" "all_spaces nonneg_integer (Lessons example_db)"
    by (simp_all add: all_spaces_def nonneg_number_def nonneg_integer_def example_db_def)
  from put_keeps_spaces_nonnegative [OF p(1) d] put_keeps_spaces_nonnegative [OF p(2) d] p d a
  show ?thesis by simp
qed

text \<open>
  C6 as stated fails: every spaces value of the store is a non-negative integer, the
  request with \<^verbatim>\<open>spaces: 2.5\<close> succeeds, and afterwards one of them is 2.5.
\<close>

theorem fractional_spaces_counterexample:
  "all_spaces nonneg_integer (Lessons example_db)
 \<and> put_lessons no_df example_db (math_berlin (JNum (Fin (5 / 2))))
     = (SpacesUpdated (JStr ''Math'') (JStr ''Berlin'') (Fin (5 / 2)),
        example_db\<lparr>Lessons := lessons_with (Fin (5 / 2))\<rparr>)
 \<and> \<not> all_spaces nonneg_integer (lessons_with (Fin (5 / 2)))"
proof -
  have "all_spaces nonneg_integer (Lessons example_db)"
    by (simp add: all_spaces_def nonneg_integer_def example_db_def)
  moreover have "\<not> all_spaces nonneg_integer (lessons_with (Fin (5 / 2)))"
    by (simp add: all_spaces_def nonneg_integer_def lessons_with_def floor_rat_numeral)
  ultimately show ?thesis
    by (simp add: put_math_berlin)
qed

text \<open>
  C7 (as amended). With the connection made, \<^verbatim>\<open>PUT /api/lessons\<close> answers 400 with
  \<^verbatim>\<open>subject, city, and spaces are required\<close> exactly when the subject or the city is
  absent or falsy (\<^verbatim>\<open>null\<close>, \<^verbatim>\<open>false\<close>, \<^verbatim>\<open>0\<close>, \<^verbatim>\<open>NaN\<close> or the empty string) or
  spaces is absent; the store is then as it was. A spaces field that is present passes,
  whatever its value.
\<close>

theorem missing_fields_iff_falsy:
  assumes "connected st"
  shows "(fst (put_lessons df st b) = Message 400 ''subject, city, and spaces are required''
           \<longleftrightarrow> field b ''subject'' \<in> set falsy_values \<or> field b ''city'' \<in> set falsy_values
                \<or> field b ''spaces'' = None)
       \<and> (field b ''subject'' \<in> set falsy_values \<or> field b ''city'' \<in> set falsy_values
                \<or> field b ''spaces'' = None
           \<longrightarrow> snd (put_lessons df st b) = st)"
proof -
  let ?missing = "\<not> truthy (field b ''subject'') \<or> \<not> truthy (field b ''city'')
                \<or> field b ''spaces'' = None"
  have yes: "?missing \<Longrightarrow>
      put_lessons df st b = (Message 400 ''subject, city, and spaces are required'', st)"
    using assms by (rule put_missing)
  have no: "fst (put_lessons df st b) \<noteq> Message 400 ''subject, city, and spaces are required''"
    if "\<not> ?missing"
    using that assms
    by (auto simp: put_lessons_def split: option.splits prod.splits)
  have "?missing \<longleftrightarrow> field b ''subject'' \<in> set falsy_values \<or> field b ''city'' \<in> set falsy_values
                \<or> field b ''spaces'' = None"
    by (simp only: falsy_iff)
  with yes no show ?thesis
    by (metis fst_conv snd_conv)
qed

theorem missing_fields_iff_falsy_witness:
  "connected example_db
 \<and> field [(''subject'', JStr ''''), (''city'', JStr ''Berlin''), (''spaces'', JNum (Fin 3))] ''subject''
     \<in> set falsy_values
 \<and> put_lessons no_df example_db
      [(''subject'', JStr ''''), (''city'', JStr ''Berlin''), (''spaces'', JNum (Fin 3))]
     = (Message 400 ''subject, city, and spaces are required'', example_db)
 \<and> field (math_berlin JNull) ''subject'' \<notin> set falsy_values
 \<and> field (math_berlin JNull) ''city'' \<notin> set falsy_values
 \<and> field (math_berlin JNull) ''spaces'' \<noteq> None
 \<and> fst (put_lessons no_df example_db (math_berlin JNull))
     \<noteq> Message 400 ''subject, city, and spaces are required''"
proof -
  let ?b = "[(''subject'', JStr ''''), (''city'', JStr ''Berlin''), (''spaces'', JNum (Fin 3))]"
  have c: "connected example_db"
    by (simp add: example_db_def)
  have h: "field ?b ''subject'' \<in> set falsy_values"
    "field (math_berlin JNull) ''subject'' \<notin> set falsy_values"
    "field (math_berlin JNull) ''city'' \<notin> set falsy_values"
    "field (math_berlin JNull) ''spaces'' \<noteq> None"
    by (simp_all add: field_def falsy_values_def math_berlin_def)
  from missing_fields_iff_falsy [OF c, of no_df ?b]
    missing_fields_iff_falsy [OF c, of no_df "math_berlin JNull"] c h
  show ?thesis
    by (simp add: prod_eq_iff)
qed

text \<open>
  C7 as stated fails: a payload with all three fields present, the subject being the empty
  string, is rejected with the message for missing fields.
\<close>

theorem missing_fields_counterexample:
  "field [(''subject'', JStr ''''), (''city'', JStr ''Berlin''), (''spaces'', JNum (Fin 3))] ''subject''
     \<noteq> None
 \<and> field [(''subject'', JStr ''''), (''city'', JStr ''Berlin''), (''spaces'', JNum (Fin 3))] ''city''
     \<noteq> None
 \<and> field [(''subject'', JStr ''''), (''city'', JStr ''Berlin''), (''spaces'', JNum (Fin 3))] ''spaces''
     \<noteq> None
 \<and> put_lessons no_df example_db
      [(''subject'', JStr ''''), (''city'', JStr ''Berlin''), (''spaces'', JNum (Fin 3))]
     = (Message 400 ''subject, city, and spaces are required'', example_db)"
  by (simp add: field_def put_lessons_def example_db_def)

text \<open>
  C8. Take a payload whose name is a text matching the name pattern, whose phone is a text
  matching the phone pattern, whose items are a non-empty array and whose total converts
  to a finite number, and a store with the connection made. \<^verbatim>\<open>POST /api/order\<close> appends
  one order to the orders: the name without the spaces at its two ends, the phone (which
  has nothing to trim), the items, the converted total, the time of the request as
  \<^verbatim>\<open>createdAt\<close> and a fresh \<^verbatim>\<open>_id\<close>; the answer carries that order, and the lessons
  are as they were. The converted total is the total itself when that is a number, and
  what the numeric string denotes when it is a string. The same payload sent again
  appends a second order, which differs from the first.
\<close>

theorem valid_order_is_inserted:
  assumes "connected st"
    and "field b ''name'' = Some (JStr n)" and "name_pattern n"
    and "field b ''phone'' = Some (JStr p)" and "phone_pattern p"
    and "field b ''items'' = Some (JArr (x # xs))"
    and "Number (field b ''total'') = Some t" and "isFinite t"
  shows
    "let ord = \<lparr>order_id = next_id st, name = without_outer_spaces n, phone = p,
                items = x # xs, total_o = t, createdAt = now\<rparr>;
         ord' = \<lparr>order_id = Suc (next_id st), name = without_outer_spaces n, phone = p,
                 items = x # xs, total_o = t, createdAt = now'\<rparr>;
         st1 = snd (post_order now st b);
         st2 = snd (post_order now' st1 b)
     in fst (post_order now st b) = OrderSaved ord
      \<and> st1 = st\<lparr>Orders := Orders st @ [ord], next_id := Suc (next_id st)\<rparr>
      \<and> Lessons st1 = Lessons st
      \<and> fst (post_order now' st1 b) = OrderSaved ord'
      \<and> Orders st2 = Orders st @ [ord, ord']
      \<and> ord \<noteq> ord'
      \<and> name ord = trim n \<and> phone ord = trim p
      \<and> (\<forall>q. field b ''total'' = Some (JNum q) \<longrightarrow> t = q)
      \<and> (\<forall>s. field b ''total'' = Some (JStr s) \<longrightarrow> t = string_to_number s)"
proof -
  have tn: "test name_pattern (or_empty (field b ''name'')) = Some True"
    using assms(2,3) by (simp add: or_empty_JStr test_JStr)
  have tp: "test phone_pattern (or_empty (field b ''phone'')) = Some True"
    using assms(4,5) by (simp add: or_empty_JStr test_JStr)
  have tr: "call_trim (field b ''name'') = Some (without_outer_spaces n)"
    "call_trim (field b ''phone'') = Some p"
    using assms(2-5) by (simp_all add: call_trim_def trim_name trim_phone)
  have saved: "post_order w s' b =
       (OrderSaved \<lparr>order_id = next_id s', name = without_outer_spaces n, phone = p,
                    items = x # xs, total_o = t, createdAt = w\<rparr>,
        s'\<lparr>Orders := Orders s' @ [\<lparr>order_id = next_id s', name = without_outer_spaces n,
                    phone = p, items = x # xs, total_o = t, createdAt = w\<rparr>],
           next_id := Suc (next_id s')\<rparr>)" if "connected s'" for w s'
    using that tn tp assms(6-8) tr by (rule post_saved)
  have num: "\<forall>q. field b ''total'' = Some (JNum q) \<longrightarrow> t = q"
    "\<forall>s. field b ''total'' = Some (JStr s) \<longrightarrow> t = string_to_number s"
    using assms(7) by auto
  show ?thesis
    using assms(1,3,5) num by (simp add: Let_def saved trim_name trim_phone)
qed

theorem valid_order_is_inserted_witness:
  "connected example_db \<and> name_pattern ''  Jane Doe '' \<and> phone_pattern ''5551234''
 \<and> Number (Some (JStr '' 12.5 '')) = Some (Fin (25 / 2)) \<and> isFinite (Fin (25 / 2))
 \<and> trim ''  Jane Doe '' = ''Jane Doe''
 \<and> post_order 1000 example_db
      [(''name'', JStr ''  Jane Doe ''), (''phone'', JStr ''5551234''),
       (''items'', JArr [JStr ''book'']), (''total'', JStr '' 12.5 '')]
    = (OrderSaved \<lparr>order_id = 0, name = ''Jane Doe'', phone = ''5551234'',
                   items = [JStr ''book''], total_o = Fin (25 / 2), createdAt = 1000\<rparr>,
       example_db\<lparr>Orders := [\<lparr>order_id = 0, name = ''Jane Doe'', phone = ''5551234'',
                   items = [JStr ''book''], total_o = Fin (25 / 2), createdAt = 1000\<rparr>],
                  next_id := 1\<rparr>)"
proof -
  let ?b = "[(''name'', JStr ''  Jane Doe ''), (''phone'', JStr ''5551234''),
       (''items'', JArr [JStr ''book'']), (''total'', JStr '' 12.5 '')]"
  have n: "Number (Some (JStr '' 12.5 '')) = Some (Fin (25 / 2))"
    by (simp add: number_eval)
  have h: "connected example_db"
    "field ?b ''name'' = Some (JStr ''  Jane Doe '')" "name_pattern ''  Jane Doe ''"
    "field ?b ''phone'' = Some (JStr ''5551234'')" "phone_pattern ''5551234''"
    "field ?b ''items'' = Some (JArr [JStr ''book''])"
    "Number (field ?b ''total'') = Some (Fin (25 / 2))" "isFinite (Fin (25 / 2))"
    using n
    by (simp_all add: example_db_def field_def name_pattern_def phone_pattern_def isFinite_def)
  have t: "trim ''  Jane Doe '' = ''Jane Doe''"
    by (simp add: trim_def ws1_def ws2_def ws3_def)
  have w: "without_outer_spaces ''  Jane Doe '' = ''Jane Doe''"
    by (simp add: without_outer_spaces_def)
  have o: "Orders example_db = []" "next_id example_db = 0"
    by (simp_all add: example_db_def)
  from valid_order_is_inserted [OF h, of 1000 1000] h n t w o show ?thesis
    by (simp add: Let_def prod_eq_iff)
qed

text \<open>
  C9. With the connection made, take a payload whose spaces field is \<^verbatim>\<open>null\<close> or the
  empty string and whose subject and city (strings, numbers or booleans, not falsy) match
  a lesson. \<^verbatim>\<open>Number(spaces)\<close> is 0, the answer is 200 with \<^verbatim>\<open>spaces: 0\<close>, and
  afterwards the first location of that city in the first lesson that matches has 0
  spaces.
\<close>

theorem null_or_empty_spaces_is_zero:
  assumes "connected st"
    and "field b ''subject'' = Some s" and "truthy (Some s)" and "\<not> is_document s"
    and "field b ''city'' = Some c" and "truthy (Some c)" and "\<not> is_document c"
    and "field b ''spaces'' = Some x" and "x = JNull \<or> x = JStr []"
    and "list_ex (matches s c) (Lessons st)"
  shows
    "let i = first_index (matches s c) (Lessons st);
         j = first_index (\<lambda>loc. JStr (city loc) = c) (locations (Lessons st ! i));
         st' = snd (put_lessons df st b)
     in Number (Some x) = Some (Fin 0)
      \<and> fst (put_lessons df st b) = SpacesUpdated s c (Fin 0)
      \<and> i < length (Lessons st') \<and> JStr (subject (Lessons st' ! i)) = s
      \<and> j < length (locations (Lessons st' ! i)) \<and> JStr (city (locations (Lessons st' ! i) ! j)) = c
      \<and> spaces (locations (Lessons st' ! i) ! j) = Fin 0"
proof -
  have n: "Number (Some x) = Some (Fin 0)"
    using assms(9) by (auto simp: string_to_number_empty)
  have f: "isFinite (Fin 0)" "\<not> negative (Fin 0)"
    by (simp_all add: isFinite_def negative_def)
  have p: "put_lessons df st b =
      (SpacesUpdated s c (Fin 0), st\<lparr>Lessons := snd (update_first s c (Fin 0) (Lessons st))\<rparr>)"
    using put_success [OF assms(1-8) n f, of df] assms(10) by simp
  from update_first_at [OF assms(10), of "Fin 0"] n p show ?thesis
    by (simp add: Let_def)
qed

theorem null_or_empty_spaces_is_zero_witness:
  "connected example_db
 \<and> field (math_berlin JNull) ''subject'' = Some (JStr ''Math'')
 \<and> field (math_berlin JNull) ''city'' = Some (JStr ''Berlin'')
 \<and> field (math_berlin JNull) ''spaces'' = Some JNull
 \<and> field (math_berlin (JStr [])) ''spaces'' = Some (JStr [])
 \<and> list_ex (matches (JStr ''Math'') (JStr ''Berlin'')) (Lessons example_db)
 \<and> put_lessons no_df example_db (math_berlin JNull)
     = (SpacesUpdated (JStr ''Math'') (JStr ''Berlin'') (Fin 0),
        example_db\<lparr>Lessons := lessons_with (Fin 0)\<rparr>)
 \<and> put_lessons no_df example_db (math_berlin (JStr []))
     = (SpacesUpdated (JStr ''Math'') (JStr ''Berlin'') (Fin 0),
        example_db\<lparr>Lessons := lessons_with (Fin 0)\<rparr>)
 \<and> spaces (locations (lessons_with (Fin 0) ! 0) ! 1) = Fin 0"
proof -
  have h: "connected example_db" "truthy (Some (JStr ''Math''))" "\<not> is_document (JStr ''Math'')"
    "truthy (Some (JStr ''Berlin''))" "\<not> is_document (JStr ''Berlin'')"
    by (simp_all add: example_db_def is_document_def)
  have f: "field (math_berlin x) ''subject'' = Some (JStr ''Math'')"
    "field (math_berlin x) ''city'' = Some (JStr ''Berlin'')"
    "field (math_berlin x) ''spaces'' = Some x" for x
    by (simp_all add: math_berlin_def field_def)
  have m: "list_ex (matches (JStr ''Math'') (JStr ''Berlin'')) (Lessons example_db)"
    by (simp add: example_db_def matches_def)
  have i: "first_index (matches (JStr ''Math'') (JStr ''Berlin'')) (Lessons example_db) = 0"
    "first_index (\<lambda>loc. JStr (city loc) = JStr ''Berlin'') (locations (Lessons example_db ! 0)) = 1"
    by (simp_all add: first_index_def matches_def example_db_def)
  have p: "put_lessons no_df example_db (math_berlin JNull)
     = (SpacesUpdated (JStr ''Math'') (JStr ''Berlin'') (Fin 0),
        example_db\<lparr>Lessons := lessons_with (Fin 0)\<rparr>)"
    "put_lessons no_df example_db (math_berlin (JStr []))
     = (SpacesUpdated (JStr ''Math'') (JStr ''Berlin'') (Fin 0),
        example_db\<lparr>Lessons := lessons_with (Fin 0)\<rparr>)"
    by (simp_all add: put_math_berlin string_to_number_empty)
  note g = f [of JNull] and e = f [of "JStr []"]
  from null_or_empty_spaces_is_zero [where df = no_df, OF h(1) g(1) h(2,3) g(2) h(4,5) g(3) _ m]
    null_or_empty_spaces_is_zero [where df = no_df, OF h(1) e(1) h(2,3) e(2) h(4,5) e(3) _ m]
    h g e m i p
  show ?thesis
    by (simp add: Let_def)
qed

text \<open>
  C10 (as amended). In \<^verbatim>\<open>POST /api/order\<close> a missing name is tested as the empty
  string: no order is inserted and, with the connection made, the answer is 400 with
  \<^verbatim>\<open>Invalid name format\<close>. A missing phone is tested as the empty string: no order is
  inserted and, with the connection made, the answer is 400 with
  \<^verbatim>\<open>Invalid phone format\<close> once the name has passed its test, and 400 with
  \<^verbatim>\<open>Invalid name format\<close> when the name fails it, the name being tested first. The
  handler has four messages with status 400 and none of them is about a missing field.
  Before the connection is made the answer is 500 whatever is missing.
\<close>

theorem order_missing_field_is_format_error:
  "(field b ''name'' = None
      \<longrightarrow> or_empty (field b ''name'') = JStr []
        \<and> snd (post_order now st b) = st
        \<and> (connected st \<longrightarrow> fst (post_order now st b) = Message 400 ''Invalid name format''))
 \<and> (field b ''phone'' = None
      \<longrightarrow> or_empty (field b ''phone'') = JStr []
        \<and> snd (post_order now st b) = st
        \<and> (connected st \<and> test name_pattern (or_empty (field b ''name'')) = Some True
            \<longrightarrow> fst (post_order now st b) = Message 400 ''Invalid phone format'')
        \<and> (connected st \<and> test name_pattern (or_empty (field b ''name'')) = Some False
            \<longrightarrow> fst (post_order now st b) = Message 400 ''Invalid name format''))
 \<and> (status (fst (post_order now st b)) = 400
      \<longrightarrow> fst (post_order now st b) \<in> set [Message 400 ''Invalid name format'',
             Message 400 ''Invalid phone format'', Message 400 ''Order must contain items'',
             Message 400 ''Invalid total''])
 \<and> (\<not> connected st \<longrightarrow> post_order now st b = (Message 500 ''Failed to save order'', st))"
proof (intro conjI impI)
  assume a: "field b ''name'' = None"
  then show "or_empty (field b ''name'') = JStr []"
    by (simp add: or_empty_None)
  have t: "test name_pattern (or_empty (field b ''name'')) = Some False"
    using a by (simp add: or_empty_None test_JStr name_pattern_Nil)
  show "snd (post_order now st b) = st"
    using t by (cases "connected st") (simp_all add: post_bad_name post_offline)
  assume "connected st"
  then show "fst (post_order now st b) = Message 400 ''Invalid name format''"
    using t by (simp add: post_bad_name)
next
  assume a: "field b ''phone'' = None"
  then show "or_empty (field b ''phone'') = JStr []"
    by (simp add: or_empty_None)
  have t: "test phone_pattern (or_empty (field b ''phone'')) = Some False"
    using a by (simp add: or_empty_None test_JStr phone_pattern_Nil)
  have "\<nexists>ord. fst (post_order now st b) = OrderSaved ord"
    using t by (simp add: post_order_def split: option.splits bool.splits)
  then show "snd (post_order now st b) = st"
    by (rule post_unchanged)
  {
    assume "connected st \<and> test name_pattern (or_empty (field b ''name'')) = Some True"
    then show "fst (post_order now st b) = Message 400 ''Invalid phone format''"
      using t by (simp add: post_bad_phone)
  }
  assume "connected st \<and> test name_pattern (or_empty (field b ''name'')) = Some False"
  then show "fst (post_order now st b) = Message 400 ''Invalid name format''"
    by (simp add: post_bad_name)
next
  assume "status (fst (post_order now st b)) = 400"
  then show "fst (post_order now st b) \<in> set [Message 400 ''Invalid name format'',
             Message 400 ''Invalid phone format'', Message 400 ''Order must contain items'',
             Message 400 ''Invalid total'']"
    by (auto simp: post_order_def Let_def
        split: if_splits option.splits bool.splits json.splits list.splits)
next
  assume "\<not> connected st"
  then show "post_order now st b = (Message 500 ''Failed to save order'', st)"
    by (rule post_offline)
qed

theorem order_missing_field_is_format_error_witness:
  "field [(''phone'', JStr ''555'')] ''name'' = None
 \<and> post_order 7 example_db [(''phone'', JStr ''555'')]
     = (Message 400 ''Invalid name format'', example_db)
 \<and> field [(''name'', JStr ''Jane Doe'')] ''phone'' = None
 \<and> test name_pattern (or_empty (field [(''name'', JStr ''Jane Doe'')] ''name'')) = Some True
 \<and> post_order 7 example_db [(''name'', JStr ''Jane Doe'')]
     = (Message 400 ''Invalid phone format'', example_db)
 \<and> field [(''name'', JStr ''R2D2'')] ''phone'' = None
 \<and> test name_pattern (or_empty (field [(''name'', JStr ''R2D2'')] ''name'')) = Some False
 \<and> post_order 7 example_db [(''name'', JStr ''R2D2'')]
     = (Message 400 ''Invalid name format'', example_db)
 \<and> post_order 7 offline_db [(''name'', JStr ''Jane Doe'')]
     = (Message 500 ''Failed to save order'', offline_db)"
proof -
  have h: "field [(''phone'', JStr ''555'')] ''name'' = None"
    "field [(''name'', JStr ''Jane Doe'')] ''phone'' = None"
    "test name_pattern (or_empty (field [(''name'', JStr ''Jane Doe'')] ''name'')) = Some True"
    "field [(''name'', JStr ''R2D2'')] ''phone'' = None"
    "test name_pattern (or_empty (field [(''name'', JStr ''R2D2'')] ''name'')) = Some False"
    "connected example_db" "\<not> connected offline_db"
    by (simp_all add: field_def or_empty_def test_def name_pattern_def example_db_def
        offline_db_def)
  from order_missing_field_is_format_error [of "[(''phone'', JStr ''555'')]" 7 example_db]
    order_missing_field_is_format_error [of "[(''name'', JStr ''Jane Doe'')]" 7 example_db]
    order_missing_field_is_format_error [of "[(''name'', JStr ''R2D2'')]" 7 example_db]
    order_missing_field_is_format_error [of "[(''name'', JStr ''Jane Doe'')]" 7 offline_db]
    h
  show ?thesis
    by (simp add: prod_eq_iff)
qed

text \<open>
  C10 as stated fails twice. A payload with no phone and a name that fails its test is
  answered with the name's message and not the phone's; and before the connection is
  made a payload with no name is answered with 500.
\<close>

theorem missing_phone_counterexample:
  "connected example_db
 \<and> field [(''name'', JStr ''R2D2'')] ''phone'' = None
 \<and> post_order 7 example_db [(''name'', JStr ''R2D2'')]
     = (Message 400 ''Invalid name format'', example_db)
 \<and> fst (post_order 7 example_db [(''name'', JStr ''R2D2'')]) \<noteq> Message 400 ''Invalid phone format''
 \<and> \<not> connected offline_db
 \<and> field [(''phone'', JStr ''555'')] ''name'' = None
 \<and> post_order 7 offline_db [(''phone'', JStr ''555'')]
     = (Message 500 ''Failed to save order'', offline_db)
 \<and> status (fst (post_order 7 offline_db [(''phone'', JStr ''555'')])) \<noteq> 400"
  by (simp add: offline_db_def example_db_def field_def or_empty_def test_def name_pattern_def
      post_order_def)

section \<open>Payloads the claims leave out\<close>

text \<open>
  The patterns are tested on the string a value converts to, and \<^verbatim>\<open>trim\<close> is called
  on the value itself. So a name that is not a text but prints as letters, such as
  \<^verbatim>\<open>true\<close>, passes every check and then makes \<^verbatim>\<open>name.trim()\<close> throw: the answer
  is the 500 of the \<^verbatim>\<open>catch\<close> block and nothing is stored. The same holds for a phone
  that is the number \<^verbatim>\<open>555\<close>, and the conversion itself throws on an object with a
  \<^verbatim>\<open>toString\<close> key.
\<close>

lemma boolean_name_throws_after_the_checks:
  "test name_pattern (or_empty (Some (JBool True))) = Some True
 \<and> post_order 7 example_db
      [(''name'', JBool True), (''phone'', JStr ''5551234''),
       (''items'', JArr [JStr ''book'']), (''total'', JNum (Fin 1))]
    = (Message 500 ''Failed to save order'', example_db)"
  by (simp add: post_order_def example_db_def field_def or_empty_def test_def name_pattern_def
      phone_pattern_def isFinite_def call_trim_def)

lemma number_phone_throws_after_the_checks:
  "test phone_pattern (or_empty (Some (JNum (Fin 555)))) = Some True
 \<and> post_order 7 example_db
      [(''name'', JStr ''Jane Doe''), (''phone'', JNum (Fin 555)),
       (''items'', JArr [JStr ''book'']), (''total'', JNum (Fin 1))]
    = (Message 500 ''Failed to save order'', example_db)"
  by (simp add: post_order_def example_db_def field_def or_empty_def test_def name_pattern_def
      phone_pattern_def isFinite_def call_trim_def number_to_string_def positive_to_string_def
      digit_char_def trim_def ws1_def ws2_def ws3_def)

lemma toString_key_throws_in_the_check:
  "post_order 7 example_db [(''name'', JObj [(''toString'', JNull)])]
    = (Message 500 ''Failed to save order'', example_db)"
  by (simp add: post_order_def example_db_def field_def or_empty_def test_def)

text \<open>
  \<^verbatim>\<open>Number\<close> rounds a numeric string to a double. A negative value too small for a
  double becomes zero, which is not below zero, so the update goes through.
\<close>

lemma Number_rounds_to_a_double:
  "string_to_number ''0.1'' = Fin (3602879701896397 / 36028797018963968)
 \<and> string_to_number ''9007199254740993'' = Fin 9007199254740992
 \<and> string_to_number ''-1e-400'' = Fin 0
 \<and> string_to_number ''1e400'' = PosInf"
  by (simp add: number_eval)

lemma underflow_is_stored_as_zero:
  "put_lessons df example_db (math_berlin (JStr ''-1e-400''))
    = (SpacesUpdated (JStr ''Math'') (JStr ''Berlin'') (Fin 0),
       example_db\<lparr>Lessons := lessons_with (Fin 0)\<rparr>)"
proof -
  have "Number (Some (JStr ''-1e-400'')) = Some (Fin 0)"
    by (simp add: number_eval)
  then show ?thesis
    by (simp add: put_math_berlin)
qed

end
